theory Spec2Isabelle
  imports Complex_Main "HOL-Library.AList" "HOL-Library.Sublist" "HOL-Library.Multiset"
begin

section \<open>Python strings\<close>

text \<open>
  A Python \<open>str\<close> is a sequence of Unicode code points; a code point is a natural
  number.  ASCII literals of the source are written through \<open>asc\<close>; literals with
  characters beyond ASCII are written as lists of code points.
\<close>

type_synonym str = "nat list"

definition asc :: "string \<Rightarrow> str" where
  "asc s = map of_char s"

section \<open>The parallel task runner of \<open>mcp_server.py\<close>\<close>

text \<open>
  \<open>MCPServer.__init__\<close> reads \<open>max_workers\<close> (default 24) and \<open>timeout\<close>
  (default 30) from the configuration.  Time is counted in whole ticks (seconds).
\<close>

record config =
  max_workers :: nat
  timeout :: nat

definition default_config :: config where
  "default_config = \<lparr>max_workers = 24, timeout = 30\<rparr>"

text \<open>
  What \<open>task_func(task)\<close> does when a worker runs it: it returns a value or raises an
  exception \<open>e\<close> (an instance of \<open>Exception\<close>, kept as \<open>str(e)\<close>) after
  \<open>finishes_after\<close> ticks of execution, or it never returns (\<open>None\<close>).
\<close>

record 'r run =
  finishes_after :: "nat option"
  yields :: "str + 'r"

text \<open>
  The server object: the configuration that \<open>__init__\<close> reads and the one
  \<open>ThreadPoolExecutor(max_workers)\<close> that it creates and that every batch is submitted
  to.  The state of the executor is the list of the ticks, counted from now, at which
  its workers are free for a new task: one number for a worker, 0 for an idle one; a
  worker that runs a call that never returns has no number.  A batch that is cut off by
  the deadline leaves its tasks to the executor, which goes on running them.
\<close>

record mcp_server = config +
  executor :: "nat list"

definition mcp_server_init :: "config \<Rightarrow> mcp_server" where
  "mcp_server_init cfg =
     \<lparr>max_workers = max_workers cfg, timeout = timeout cfg,
      executor = replicate (max_workers cfg) 0\<rparr>"

text \<open>
  \<open>executor.submit\<close> for every task of the batch, at tick 0: the queue of the executor
  is first-in first-out, so a task starts on the worker that becomes free first, behind
  what the executor runs already.  The first argument is the state of the executor, the
  second the execution times of the tasks.  \<open>pool_finish\<close> is the tick at which each
  future completes (\<open>None\<close>: never), \<open>pool_after\<close> the state of the executor with the
  batch in it.
\<close>

fun pool_finish :: "nat list \<Rightarrow> nat option list \<Rightarrow> nat option list" where
  "pool_finish free [] = []"
| "pool_finish [] (d # ds) = None # pool_finish [] ds"
| "pool_finish (w # ws) (d # ds) =
     (let s = min_list (w # ws); others = remove1 s (w # ws) in
      case d of
        None \<Rightarrow> None # pool_finish others ds
      | Some k \<Rightarrow> Some (s + k) # pool_finish ((s + k) # others) ds)"

fun pool_after :: "nat list \<Rightarrow> nat option list \<Rightarrow> nat list" where
  "pool_after free [] = free"
| "pool_after [] (d # ds) = []"
| "pool_after (w # ws) (d # ds) =
     (let s = min_list (w # ws); others = remove1 s (w # ws) in
      case d of
        None \<Rightarrow> pool_after others ds
      | Some k \<Rightarrow> pool_after ((s + k) # others) ds)"

text \<open>
  \<open>concurrent.futures.as_completed(fs, timeout)\<close>: the futures that complete within
  \<open>timeout\<close> ticks are yielded in order of completion; if a future is still pending at
  the deadline, \<open>TimeoutError\<close> is raised after them (the flag of the result).
\<close>

fun done_by :: "nat \<Rightarrow> nat option \<Rightarrow> bool" where
  "done_by tmo None = False"
| "done_by tmo (Some f) = (f \<le> tmo)"

fun finish_tick :: "nat option \<Rightarrow> nat" where
  "finish_tick None = 0"
| "finish_tick (Some f) = f"

definition as_completed :: "nat \<Rightarrow> (nat option \<times> 'a) list \<Rightarrow> 'a list \<times> bool" where
  "as_completed tmo fs =
     (map snd (sort_key (\<lambda>p. finish_tick (fst p)) (filter (\<lambda>p. done_by tmo (fst p)) fs)),
      list_ex (\<lambda>p. \<not> done_by tmo (fst p)) fs)"

text \<open>One value of the \<open>results\<close> dictionary, and the dictionary the method returns.
  A key that a dictionary does not have is \<open>None\<close> in the record: the report of a
  completed batch has no \<open>"error"\<close>, the report of a timed-out batch has no
  \<open>"success_rate"\<close>.\<close>

record 'r entry =
  success :: bool
  content :: "'r option"
  error :: "str option"

record 'r report =
  total_tasks :: nat
  completed :: nat
  results :: "(str \<times> 'r entry) list"
  success_rate :: "rat option"
  report_error :: "str option"

datatype py_error = ZeroDivisionError

text \<open>The body of the \<open>for future in as_completed(...)\<close> loop: \<open>results[str(task)] = ...\<close>.
  A Python dictionary keeps insertion order and an assignment to a present key replaces
  its value in place, which is \<open>AList.update\<close>.\<close>

definition outcome_entry :: "str + 'r \<Rightarrow> 'r entry" where
  "outcome_entry y =
     (case y of
        Inr v \<Rightarrow> \<lparr>success = True, content = Some v, error = None\<rparr>
      | Inl e \<Rightarrow> \<lparr>success = False, content = None, error = Some e\<rparr>)"

definition record_result ::
  "('t \<Rightarrow> str) \<Rightarrow> ('t \<Rightarrow> 'r run) \<Rightarrow> (str \<times> 'r entry) list \<Rightarrow> 't \<Rightarrow> (str \<times> 'r entry) list" where
  "record_result str_of task_func res task =
     AList.update (str_of task) (outcome_entry (yields (task_func task))) res"

text \<open>Python's \<open>/\<close> on two integers: the quotient, or \<open>ZeroDivisionError\<close>.  The float
  it returns is the double nearest to the rational number kept here.\<close>

definition true_div :: "nat \<Rightarrow> nat \<Rightarrow> py_error + rat" where
  "true_div a b = (if b = 0 then Inl ZeroDivisionError else Inr (of_nat a / of_nat b))"

text \<open>The ticks at which the futures of a batch complete on the server's executor.\<close>

definition finish_times :: "mcp_server \<Rightarrow> ('t \<Rightarrow> 'r run) \<Rightarrow> 't list \<Rightarrow> nat option list" where
  "finish_times self task_func task_list =
     pool_finish (executor self) (map (\<lambda>t. finishes_after (task_func t)) task_list)"

text \<open>The tick at which the method returns: when the last future has completed, or at
  the deadline; and the state of the executor at that tick.\<close>

definition return_tick :: "nat \<Rightarrow> nat option list \<Rightarrow> nat" where
  "return_tick tmo fin =
     (if list_all (done_by tmo) fin then foldr max (map finish_tick fin) 0 else tmo)"

definition executor_at :: "nat \<Rightarrow> nat list \<Rightarrow> nat list" where
  "executor_at tick free = map (\<lambda>w. w - tick) free"

text \<open>\<open>_run_parallel_tasks\<close>: what the method returns or raises, and the server when it
  has returned.\<close>

definition run_parallel_tasks ::
  "mcp_server \<Rightarrow> ('t \<Rightarrow> str) \<Rightarrow> ('t \<Rightarrow> 'r run) \<Rightarrow> 't list \<Rightarrow>
     (py_error + 'r report) \<times> mcp_server" where
  "run_parallel_tasks self str_of task_func task_list =
     (let fin = finish_times self task_func task_list;
          (yielded, timed_out) = as_completed (timeout self) (zip fin task_list);
          res = foldl (record_result str_of task_func) [] yielded;
          total = length task_list;
          self1 = self\<lparr>executor :=
                    executor_at (return_tick (timeout self) fin)
                      (pool_after (executor self)
                         (map (\<lambda>t. finishes_after (task_func t)) task_list))\<rparr>
      in (if timed_out
          then Inr \<lparr>total_tasks = length task_list, completed = length res, results = res,
                    success_rate = None, report_error = Some (asc ''Timeout'')\<rparr>
          else (case true_div (length (filter success (map snd res))) total of
                  Inl e \<Rightarrow> Inl e
                | Inr rate \<Rightarrow>
                    Inr \<lparr>total_tasks = total, completed = length yielded, results = res,
                         success_rate = Some rate, report_error = None\<rparr>),
          self1))"

definition parallel_generate_subsections ::
  "mcp_server \<Rightarrow> ('t \<Rightarrow> str) \<Rightarrow> ('t \<Rightarrow> 'r run) \<Rightarrow> 't list \<Rightarrow>
     (py_error + 'r report) \<times> mcp_server" where
  "parallel_generate_subsections self str_of generate_subsection_task subsections_list =
     run_parallel_tasks self str_of generate_subsection_task subsections_list"

text \<open>The batches of the scenarios: a task is its own identifier (\<open>str("A") = "A"\<close>).\<close>

definition str_of_str :: "str \<Rightarrow> str" where
  "str_of_str s = s"

definition timeout_scenario :: "str \<Rightarrow> str run" where
  "timeout_scenario t =
     (if t = asc ''A'' then \<lparr>finishes_after = Some 1, yields = Inr (asc ''done'')\<rparr>
      else if t = asc ''B'' then \<lparr>finishes_after = Some 10, yields = Inr (asc ''done'')\<rparr>
      else \<lparr>finishes_after = Some 1, yields = Inl (asc ''x'')\<rparr>)"

definition always_succeeds :: "str \<Rightarrow> str run" where
  "always_succeeds t = \<lparr>finishes_after = Some 1, yields = Inr (asc ''done'')\<rparr>"



text \<open>A server with one worker and a deadline of 5 ticks, and a task that takes 10
  ticks.\<close>

definition small_server :: mcp_server where
  "small_server = mcp_server_init \<lparr>max_workers = 1, timeout = 5\<rparr>"

definition slow_then_quick :: "str \<Rightarrow> str run" where
  "slow_then_quick t =
     (if t = asc ''B'' then \<lparr>finishes_after = Some 10, yields = Inr (asc ''done'')\<rparr>
      else \<lparr>finishes_after = Some 1, yields = Inr (asc ''done'')\<rparr>)"

section \<open>The tool registry of \<open>base.py\<close>\<close>

text \<open>
  \<open>BaseMCPTools\<close> keeps the \<open>FastMCP\<close> server (\<open>None\<close> until
  \<open>create_mcp_server\<close>) and the dictionary \<open>_tools_registry\<close>.  \<open>FastMCP\<close> is a
  library: its decorator \<open>server.tool()(func)\<close> is the parameter \<open>fastmcp_tool\<close>, which
  raises (\<open>Inl\<close> of the message) or returns the server and the function it hands back;
  \<open>func.__name__\<close> is the parameter \<open>func_name\<close>.
\<close>

record ('f, 's) base_mcp_tools =
  tools_mcp_server :: "'s option"
  tools_registry :: "str \<rightharpoonup> 'f"

datatype registry_error = RuntimeError str | LibraryError str

definition base_init :: "('f, 's) base_mcp_tools" where
  "base_init = \<lparr>tools_mcp_server = None, tools_registry = Map.empty\<rparr>"

text \<open>\<open>name or func.__name__\<close>: an absent or empty name gives the function's own name.\<close>

definition tool_name_of :: "('f \<Rightarrow> str) \<Rightarrow> 'f \<Rightarrow> str option \<Rightarrow> str" where
  "tool_name_of func_name func name =
     (case name of
        None \<Rightarrow> func_name func
      | Some n \<Rightarrow> if n = [] then func_name func else n)"

text \<open>The result is what the call returns or raises, and the object after the call: the
  registry is assigned before the library is called, so it keeps the entry when the
  library raises.\<close>

definition register_tool ::
  "('s \<Rightarrow> 'f \<Rightarrow> str + 's \<times> 'f) \<Rightarrow> ('f \<Rightarrow> str) \<Rightarrow> ('f, 's) base_mcp_tools \<Rightarrow> 'f \<Rightarrow> str option \<Rightarrow>
     (registry_error + 'f) \<times> ('f, 's) base_mcp_tools" where
  "register_tool fastmcp_tool func_name self func name =
     (case tools_mcp_server self of
        None \<Rightarrow>
          (Inl (RuntimeError
             (asc ''MCP server not initialized. Call create_mcp_server() first.'')), self)
      | Some srv \<Rightarrow>
          (let tool_name = tool_name_of func_name func name;
               self1 = self\<lparr>tools_registry := (tools_registry self)(tool_name \<mapsto> func)\<rparr>
           in case fastmcp_tool srv func of
                Inl e \<Rightarrow> (Inl (LibraryError e), self1)
              | Inr (srv', func') \<Rightarrow> (Inr func', self1\<lparr>tools_mcp_server := Some srv'\<rparr>)))"

definition get_tool_by_name :: "('f, 's) base_mcp_tools \<Rightarrow> str \<Rightarrow> 'f option" where
  "get_tool_by_name self name = tools_registry self name"

definition get_tools :: "('f, 's) base_mcp_tools \<Rightarrow> (str \<rightharpoonup> 'f)" where
  "get_tools self = tools_registry self"

text \<open>A registry for the examples: tools are named by strings, the library accepts
  every function.\<close>

definition accept_tool :: "unit \<Rightarrow> str \<Rightarrow> str + unit \<times> str" where
  "accept_tool srv func = Inr (srv, func)"

definition ready_tools :: "(str, unit) base_mcp_tools" where
  "ready_tools = \<lparr>tools_mcp_server = Some (), tools_registry = Map.empty\<rparr>"

section \<open>String operations of Python used by \<open>ai_client.py\<close>\<close>

text \<open>\<open>str.isspace\<close>, which \<open>str.strip()\<close> and the class \<open>\s\<close> of \<open>re\<close> use: the
  white space table of CPython.\<close>

definition is_space :: "nat \<Rightarrow> bool" where
  "is_space c =
     ((9 \<le> c \<and> c \<le> 13) \<or> (28 \<le> c \<and> c \<le> 32) \<or> c = 133 \<or> c = 160 \<or> c = 5760 \<or>
      (8192 \<le> c \<and> c \<le> 8202) \<or> c = 8232 \<or> c = 8233 \<or> c = 8239 \<or> c = 8287 \<or> c = 12288)"

definition is_quote :: "nat \<Rightarrow> bool" where
  "is_quote c = (c = 34 \<or> c = 39)"

text \<open>\<open>s.strip(chars)\<close> removes every leading and every trailing character of the set.\<close>

definition strip_chars :: "(nat \<Rightarrow> bool) \<Rightarrow> str \<Rightarrow> str" where
  "strip_chars P s = rev (dropWhile P (rev (dropWhile P s)))"

definition str_strip :: "str \<Rightarrow> str" where
  "str_strip s = strip_chars is_space s"

text \<open>\<open>s.split(sep)\<close> for a separator of one character, and \<open>sep.join(parts)\<close>.\<close>

fun split_on :: "nat \<Rightarrow> str \<Rightarrow> str list" where
  "split_on sep [] = [[]]"
| "split_on sep (c # cs) =
     (if c = sep then [] # split_on sep cs
      else (case split_on sep cs of
              [] \<Rightarrow> [[c]]
            | p # ps \<Rightarrow> (c # p) # ps))"

fun join :: "str \<Rightarrow> str list \<Rightarrow> str" where
  "join sep [] = []"
| "join sep [p] = p"
| "join sep (p # q # ps) = p @ sep @ join sep (q # ps)"

text \<open>A value of Python: a string, or another object.  The arguments of a tool call are
  what \<open>json.loads\<close> returns for a structured call and a dictionary of strings for a
  call in the text: a dictionary (an association list with one pair for a key), or a
  value that is no dictionary (a list, a string, a number, \<open>true\<close>, \<open>null\<close>), which is
  kept as the message of the \<open>TypeError\<close> that its subscript with a string raises.\<close>

datatype 'o pyval = PyStr str | PyObj 'o

datatype 'o arguments = Dict "(str \<times> 'o pyval) list" | NotDict str

text \<open>The Python runtime: the Unicode tables behind \<open>\w\<close> (consulted for code points
  from 128 on) and \<open>str.lower\<close>, the rendering \<open>json.dumps(...)\<close> or \<open>str(...)\<close> of a
  value that is not a string (it may raise), and \<open>json.loads\<close> on the arguments of a
  structured tool call (\<open>None\<close>: \<open>JSONDecodeError\<close>).\<close>

record 'o python =
  str_isalnum :: "nat \<Rightarrow> bool"
  str_lower :: "str \<Rightarrow> str"
  dumps_or_str :: "'o \<Rightarrow> str + str"
  json_loads :: "str \<Rightarrow> 'o arguments option"

definition is_word :: "'o python \<Rightarrow> nat \<Rightarrow> bool" where
  "is_word py c =
     (if c < 128
      then (48 \<le> c \<and> c \<le> 57) \<or> (65 \<le> c \<and> c \<le> 90) \<or> (97 \<le> c \<and> c \<le> 122) \<or> c = 95
      else str_isalnum py c)"

section \<open>The dispatcher of \<open>ai_client.py\<close>\<close>

text \<open>The methods of the MCP server that the client calls.  A method returns a value or
  raises an exception \<open>e\<close>, kept as \<open>str(e)\<close>.\<close>

record 'o mcp_server_api =
  read_file :: "'o pyval \<Rightarrow> str + 'o pyval"
  write_file :: "'o pyval \<Rightarrow> 'o pyval \<Rightarrow> str + 'o pyval"
  list_files :: "'o pyval \<Rightarrow> str + 'o pyval"
  get_section_structure :: "str + 'o pyval"
  generate_outline :: "'o pyval \<Rightarrow> 'o pyval \<Rightarrow> str + 'o pyval"
  generate_subsection_content :: "'o pyval \<Rightarrow> 'o pyval \<Rightarrow> 'o pyval \<Rightarrow> str + 'o pyval"
  one_click_docx_export :: "str + 'o pyval"

record tool_spec =
  tool_name :: str
  tool_description :: str
  tool_parameters :: "(str \<times> str \<times> str) list"

record 'o ai_client =
  provider :: str
  model :: str
  api_key :: str
  base_url :: str
  temperature :: rat
  max_tokens :: nat
  mcp_server :: "'o mcp_server_api option"
  mock_mode :: bool
  available_tools :: "tool_spec list"

text \<open>Sequencing of steps that may raise.\<close>

definition and_then :: "str + 'a \<Rightarrow> ('a \<Rightarrow> str + 'b) \<Rightarrow> str + 'b" where
  "and_then x f = (case x of Inl e \<Rightarrow> Inl e | Inr v \<Rightarrow> f v)"

text \<open>\<open>arguments[key]\<close>: on a dictionary a missing key raises \<open>KeyError(key)\<close>, whose
  \<open>str\<close> is the key between single quotes (the keys are the identifiers below); on a
  value that is no dictionary it raises the \<open>TypeError\<close>.\<close>

definition subscript :: "'o arguments \<Rightarrow> str \<Rightarrow> str + 'o pyval" where
  "subscript arguments key =
     (case arguments of
        Dict d \<Rightarrow>
          (case map_of d key of
             None \<Rightarrow> Inl ([39] @ key @ [39])
           | Some v \<Rightarrow> Inr v)
      | NotDict e \<Rightarrow> Inl e)"

text \<open>The \<open>if\<close>/\<open>elif\<close> chain: \<open>None\<close> is the final \<open>else\<close> (no branch names the tool).\<close>

definition tool_branch ::
  "'o mcp_server_api \<Rightarrow> str \<Rightarrow> 'o arguments \<Rightarrow> (str + 'o pyval) option" where
  "tool_branch srv name arguments =
     (if name = asc ''read_file'' then
        Some (and_then (subscript arguments (asc ''path'')) (read_file srv))
      else if name = asc ''write_file'' then
        Some (and_then (subscript arguments (asc ''path'')) (\<lambda>p.
              and_then (subscript arguments (asc ''content'')) (\<lambda>c. write_file srv p c)))
      else if name = asc ''list_files'' then
        Some (and_then (subscript arguments (asc ''directory'')) (list_files srv))
      else if name = asc ''get_section_structure'' then
        Some (get_section_structure srv)
      else if name = asc ''generate_outline'' then
        Some (and_then (subscript arguments (asc ''requirements'')) (\<lambda>r.
              and_then (subscript arguments (asc ''tender_type'')) (\<lambda>t.
                generate_outline srv r t)))
      else if name = asc ''generate_subsection_content'' then
        Some (and_then (subscript arguments (asc ''section'')) (\<lambda>s.
              and_then (subscript arguments (asc ''subsection'')) (\<lambda>u.
              and_then (subscript arguments (asc ''requirements'')) (\<lambda>r.
                generate_subsection_content srv s u r))))
      else if name = asc ''one_click_docx_export'' then
        Some (one_click_docx_export srv)
      else None)"

text \<open>\<open>json.dumps(result, ...) if isinstance(result, (dict, list)) else str(result)\<close>.\<close>

definition result_text :: "'o python \<Rightarrow> 'o pyval \<Rightarrow> str + str" where
  "result_text py result =
     (case result of PyStr s \<Rightarrow> Inr s | PyObj v \<Rightarrow> dumps_or_str py v)"

definition call_mcp_tool ::
  "'o python \<Rightarrow> 'o ai_client \<Rightarrow> str \<Rightarrow> 'o arguments \<Rightarrow> str" where
  "call_mcp_tool py self name arguments =
     (case mcp_server self of
        None \<Rightarrow> asc ''MCP'' @ [26381, 21153, 22120, 26410, 21021, 22987, 21270]
      | Some srv \<Rightarrow>
          (case tool_branch srv name arguments of
             None \<Rightarrow> [26410, 30693, 30340, 24037, 20855] @ asc '': '' @ name
           | Some outcome \<Rightarrow>
               (case and_then outcome (result_text py) of
                  Inl e \<Rightarrow> [24037, 20855, 35843, 29992, 22833, 36133] @ asc '': '' @ e
                | Inr s \<Rightarrow> s)))"

section \<open>The call extractor of \<open>ai_client.py\<close>\<close>

text \<open>
  \<open>re.findall(r'TOOL_CALL:\s*(\w+)\((.*?)\)', text)\<close>.  A match at the start of
  \<open>t\<close>: the marker, all the white space that follows, all the word characters that
  follow (at least one), an opening parenthesis, and the characters up to the first
  closing parenthesis, none of them a line feed.  The classes \<open>\s\<close> and \<open>\w\<close> are
  disjoint and neither holds the parenthesis, so no other split of the text matches.
  The result is the two groups and the text after the match.
\<close>

definition marker :: str where
  "marker = asc ''TOOL_CALL:''"

definition match_tool_call :: "'o python \<Rightarrow> str \<Rightarrow> ((str \<times> str) \<times> str) option" where
  "match_tool_call py t =
     (if prefix marker t then
        (let t1 = dropWhile is_space (drop (length marker) t);
             name = takeWhile (is_word py) t1;
             t2 = dropWhile (is_word py) t1
         in if name = [] then None
            else (case t2 of
                    [] \<Rightarrow> None
                  | c # t3 \<Rightarrow>
                      if c = 40 then
                        (let args = takeWhile (\<lambda>d. d \<noteq> 41 \<and> d \<noteq> 10) t3;
                             t4 = dropWhile (\<lambda>d. d \<noteq> 41 \<and> d \<noteq> 10) t3
                         in case t4 of
                              [] \<Rightarrow> None
                            | d # t5 \<Rightarrow> if d = 41 then Some ((name, args), t5) else None)
                      else None))
      else None)"

lemma match_tool_call_shorter:
  "match_tool_call py t = Some (m, r) \<Longrightarrow> length r < length t"
proof -
  assume a: "match_tool_call py t = Some (m, r)"
  let ?t1 = "dropWhile is_space (drop (length marker) t)"
  let ?t2 = "dropWhile (is_word py) ?t1"
  from a obtain c t3 where t2: "?t2 = c # t3"
    by (auto simp: match_tool_call_def Let_def split: if_splits list.splits)
  let ?t4 = "dropWhile (\<lambda>d. d \<noteq> 41 \<and> d \<noteq> 10) t3"
  from a t2 obtain d where t4: "?t4 = d # r"
    by (auto simp: match_tool_call_def Let_def split: if_splits list.splits)
  have "length (d # r) \<le> length t3" using length_dropWhile_le[of _ t3] t4 by metis
  moreover have "length (c # t3) \<le> length ?t1" using length_dropWhile_le[of _ ?t1] t2 by metis
  moreover have "length ?t1 \<le> length t"
    using length_dropWhile_le[of is_space "drop (length marker) t"] by simp
  ultimately show ?thesis by simp
qed

text \<open>\<open>re.findall\<close> scans from the left: after a match it goes on behind the match, where
  nothing matches it moves on by one character.\<close>

function findall :: "'o python \<Rightarrow> str \<Rightarrow> (str \<times> str) list" where
  "findall py [] = []"
| "findall py (c # cs) =
     (case match_tool_call py (c # cs) of
        None \<Rightarrow> findall py cs
      | Some (m, r) \<Rightarrow> m # findall py r)"
  by pat_completeness auto
termination
  by (relation "measure (\<lambda>(py, t). length t)") (auto dest: match_tool_call_shorter)

text \<open>The parsing of the arguments: \<open>for arg in args_str.split(','): if '=' in arg: ...\<close>.
  The dictionary \<open>arguments\<close> keeps insertion order; a later key replaces an earlier one.\<close>

definition parse_segment :: "(str \<times> str) list \<Rightarrow> str \<Rightarrow> (str \<times> str) list" where
  "parse_segment arguments arg =
     (if 61 \<in> set arg then
        (let key = takeWhile (\<lambda>c. c \<noteq> 61) arg;
             value = drop 1 (dropWhile (\<lambda>c. c \<noteq> 61) arg)
         in AList.update (strip_chars is_quote (str_strip key))
              (strip_chars is_quote (str_strip value)) arguments)
      else arguments)"

definition parse_arguments :: "str \<Rightarrow> (str \<times> str) list" where
  "parse_arguments args_str =
     (if str_strip args_str = [] then []
      else foldl parse_segment [] (split_on 44 args_str))"

text \<open>The calls the loop over the matches dispatches: the name and the parsed arguments of
  every match, in the order of the text.\<close>

definition detected_calls :: "'o python \<Rightarrow> str \<Rightarrow> (str \<times> (str \<times> str) list) list" where
  "detected_calls py text =
     map (\<lambda>(tool_name, args_str). (tool_name, parse_arguments args_str)) (findall py text)"

definition text_arguments :: "(str \<times> str) list \<Rightarrow> 'o arguments" where
  "text_arguments arguments = Dict (map (\<lambda>(k, v). (k, PyStr v)) arguments)"

definition tool_result_part :: "str \<Rightarrow> str \<Rightarrow> str" where
  "tool_result_part name tool_result =
     [10, 10] @ asc ''**'' @ name @
     asc '' '' @ [25191, 34892, 32467, 26524, 65306] @ asc ''**'' @ [10] @ tool_result"

definition process_text_tool_calls :: "'o python \<Rightarrow> 'o ai_client \<Rightarrow> str \<Rightarrow> str" where
  "process_text_tool_calls py self text =
     (if available_tools self = [] \<or> \<not> sublist marker text then text
      else (let calls = detected_calls py text
            in if calls = [] then text
               else join [10]
                      (text # map (\<lambda>(name, arguments).
                                tool_result_part name
                                  (call_mcp_tool py self name (text_arguments arguments)))
                              calls)))"

section \<open>The completion gateway of \<open>ai_client.py\<close>\<close>

text \<open>The canned replies of \<open>_get_mock_response\<close>, in the order of the source.\<close>

definition mock_create_project :: str where
  "mock_create_project =
     [10] @ asc ''{'' @ [10] @ asc ''    '' @ [34] @ asc ''intent'' @ [34] @
     asc '': '' @ [34] @ asc ''create_project'' @ [34] @ asc '','' @ [10] @
     asc ''    '' @ [34] @ asc ''confidence'' @ [34] @ asc '': 0.9,'' @ [10] @
     asc ''    '' @ [34] @ asc ''entities'' @ [34] @ asc '': {'' @ [10] @
     asc ''        '' @ [34] @ asc ''project_name'' @ [34] @ asc '': '' @
     [34, 26234, 24935, 22478, 24066, 24314, 35774, 39033, 30446, 34, 10] @
     asc ''    },'' @ [10] @ asc ''    '' @ [34] @ asc ''task_type'' @ [34] @
     asc '': '' @ [34] @ asc ''simple'' @ [34] @ asc '','' @ [10] @ asc ''    '' @
     [34] @ asc ''requires_planning'' @ [34] @ asc '': false'' @ [10] @ asc ''}'' @ [10]"

definition mock_generate_outline :: str where
  "mock_generate_outline =
     [10] @ asc ''{'' @ [10] @ asc ''    '' @ [34] @ asc ''intent'' @ [34] @
     asc '': '' @ [34] @ asc ''generate_outline'' @ [34] @ asc '','' @ [10] @
     asc ''    '' @ [34] @ asc ''confidence'' @ [34] @ asc '': 0.9,'' @ [10] @
     asc ''    '' @ [34] @ asc ''entities'' @ [34] @ asc '': {},'' @ [10] @
     asc ''    '' @ [34] @ asc ''task_type'' @ [34] @ asc '': '' @ [34] @
     asc ''simple'' @ [34] @ asc '','' @ [10] @ asc ''    '' @ [34] @
     asc ''requires_planning'' @ [34] @ asc '': false'' @ [10] @ asc ''}'' @ [10]"

definition mock_view_content :: str where
  "mock_view_content =
     [10] @ asc ''{'' @ [10] @ asc ''    '' @ [34] @ asc ''intent'' @ [34] @
     asc '': '' @ [34] @ asc ''view_content'' @ [34] @ asc '','' @ [10] @ asc ''    '' @
     [34] @ asc ''confidence'' @ [34] @ asc '': 0.8,'' @ [10] @ asc ''    '' @ [34] @
     asc ''entities'' @ [34] @ asc '': {},'' @ [10] @ asc ''    '' @ [34] @
     asc ''task_type'' @ [34] @ asc '': '' @ [34] @ asc ''simple'' @ [34] @ asc '','' @
     [10] @ asc ''    '' @ [34] @ asc ''requires_planning'' @ [34] @ asc '': false'' @
     [10] @ asc ''}'' @ [10]"

definition mock_export_document :: str where
  "mock_export_document =
     [10] @ asc ''{'' @ [10] @ asc ''    '' @ [34] @ asc ''intent'' @ [34] @
     asc '': '' @ [34] @ asc ''export_document'' @ [34] @ asc '','' @ [10] @
     asc ''    '' @ [34] @ asc ''confidence'' @ [34] @ asc '': 0.9,'' @ [10] @
     asc ''    '' @ [34] @ asc ''entities'' @ [34] @ asc '': {},'' @ [10] @
     asc ''    '' @ [34] @ asc ''task_type'' @ [34] @ asc '': '' @ [34] @
     asc ''simple'' @ [34] @ asc '','' @ [10] @ asc ''    '' @ [34] @
     asc ''requires_planning'' @ [34] @ asc '': false'' @ [10] @ asc ''}'' @ [10]"

definition mock_general :: str where
  "mock_general =
     [10, 129302] @ asc '' **'' @ [27169, 25311, 27169, 24335, 36816, 34892, 20013] @
     asc ''**'' @ [10, 10, 30001, 20110, 26410, 37197, 32622] @ asc '' API '' @
     [23494, 38053, 65292, 24403, 21069, 36816, 34892, 22312, 27169, 25311, 27169, 24335] @
     [19979, 12290, 10, 10, 128161] @ asc '' **'' @ [37197, 32622] @ asc '' API '' @
     [23494, 38053] @ asc ''**'' @ [65306, 10] @ asc ''1. '' @ [36816, 34892] @
     asc '' '' @ [96] @ asc ''tender'' @ [96] @ asc '' '' @ [21629, 20196, 10] @
     asc ''2. '' @ [25353, 25552, 31034, 36755, 20837] @ asc '' OpenAI API Key'' @
     [10] @ asc ''3. '' @
     [23436, 25104, 37197, 32622, 21518, 21363, 21487, 20351, 29992, 23436, 25972, 21151] @
     [33021, 10, 10, 128221] @ asc '' **'' @ [24403, 21069, 21151, 33021] @ asc ''**'' @
     [65306, 10] @ asc ''- '' @ [9989] @ asc '' '' @
     [39033, 30446, 31649, 29702, 65288, 21019, 24314, 12289, 21015, 34920, 12289, 20999] @
     [25442, 65289, 10] @ asc ''- '' @ [9989] @ asc '' '' @
     [25991, 20214, 25805, 20316, 65288, 35835, 20889, 12289, 30446, 24405, 31649, 29702] @
     [65289, 10] @ asc ''- '' @ [9989] @ asc '' '' @
     [22823, 32434, 29983, 25104, 65288, 20351, 29992, 20869, 32622, 27169, 26495, 65289] @
     [10] @ asc ''- '' @ [9989] @ asc '' Word'' @ [25991, 26723, 23548, 20986, 10] @
     asc ''- '' @ [9888, 65039] @ asc '' AI'' @
     [20869, 23481, 29983, 25104, 65288, 38656, 35201] @ asc ''API'' @
     [23494, 38053, 65289, 10, 10, 128640] @ asc '' **'' @
     [24320, 22987, 20351, 29992] @ asc ''**'' @
     [65306, 21363, 20351, 22312, 27169, 25311, 27169, 24335, 19979, 65292, 24744, 20063] @
     [21487, 20197, 20307, 39564, 22823, 37096, 20998, 21151, 33021, 65281, 10]"

text \<open>\<open>_register_mcp_tools\<close>: no tool without a server, the seven tools otherwise.  A tool
  is listed with its name, its description and its parameters (name, type,
  description), all of them required.\<close>

definition mcp_tool_list :: "tool_spec list" where
  "mcp_tool_list =
     [\<lparr>tool_name = asc ''read_file'',
        tool_description = [35835, 21462, 25991, 20214, 20869, 23481],
        tool_parameters = [(asc ''path'', asc ''string'', [25991, 20214, 36335, 24452])]\<rparr>,
      \<lparr>tool_name = asc ''write_file'',
        tool_description = [20889, 20837, 25991, 20214, 20869, 23481],
        tool_parameters = [(asc ''path'', asc ''string'', [25991, 20214, 36335, 24452]), (asc ''content'', asc ''string'', [25991, 20214, 20869, 23481])]\<rparr>,
      \<lparr>tool_name = asc ''list_files'',
        tool_description = [21015, 20986, 30446, 24405, 20013, 30340, 25991, 20214],
        tool_parameters = [(asc ''directory'', asc ''string'', [30446, 24405, 36335, 24452])]\<rparr>,
      \<lparr>tool_name = asc ''get_section_structure'',
        tool_description = [33719, 21462, 39033, 30446, 30340, 31456, 33410, 32467, 26500],
        tool_parameters = []\<rparr>,
      \<lparr>tool_name = asc ''generate_outline'',
        tool_description = [29983, 25104, 26631, 20070, 22823, 32434],
        tool_parameters = [(asc ''requirements'', asc ''string'', [25307, 26631, 35201, 27714]), (asc ''tender_type'', asc ''string'', [25307, 26631, 31867, 22411])]\<rparr>,
      \<lparr>tool_name = asc ''generate_subsection_content'',
        tool_description = [29983, 25104, 31456, 33410, 23376, 20869, 23481],
        tool_parameters = [(asc ''section'', asc ''string'', [31456, 33410, 21517, 31216]), (asc ''subsection'', asc ''string'', [23376, 31456, 33410, 21517, 31216]), (asc ''requirements'', asc ''object'', [35201, 27714, 20449, 24687])]\<rparr>,
      \<lparr>tool_name = asc ''one_click_docx_export'',
        tool_description = [19968, 38190, 23548, 20986] @ asc ''Word'' @ [25991, 26723],
        tool_parameters = []\<rparr>]"









definition get_mock_response :: "'o python \<Rightarrow> str \<Rightarrow> str option \<Rightarrow> str" where
  "get_mock_response py prompt system_prompt =
     (let prompt_lower = str_lower py prompt
      in if sublist [20998, 26512, 29992, 25143, 30340, 24847, 22270] prompt \<or>
            sublist (asc ''analyze'') prompt_lower then
           (if sublist [21019, 24314, 39033, 30446] prompt \<or>
               sublist (asc ''create'') prompt_lower then mock_create_project
            else if sublist [29983, 25104, 22823, 32434] prompt \<or>
               sublist (asc ''outline'') prompt_lower then mock_generate_outline
            else if sublist [26597, 30475] prompt \<or>
               sublist (asc ''view'') prompt_lower then mock_view_content
            else if sublist [23548, 20986] prompt \<or>
               sublist (asc ''export'') prompt_lower then mock_export_document
            else mock_general)
         else mock_general)"

text \<open>The messages of the conversation, a request to the completion service, and the
  message of its reply (\<open>response.choices[0].message\<close>).  The service is the parameter
  \<open>create\<close>: it returns the message or raises (\<open>Inl\<close> of \<open>str(e)\<close>).\<close>

record chat_message =
  role :: str
  msg_content :: str
  tool_call_id :: "str option"

record request =
  req_model :: str
  req_messages :: "chat_message list"
  req_temperature :: rat
  req_max_tokens :: nat
  req_stream :: "bool option"
  req_tools :: "tool_spec list option"

record tool_call =
  call_id :: str
  call_name :: str
  call_arguments :: str

record reply =
  reply_content :: "str option"
  reply_tool_calls :: "tool_call list"

definition enhanced_system_prompt :: "'o ai_client \<Rightarrow> str \<Rightarrow> str" where
  "enhanced_system_prompt self system_prompt =
     system_prompt @
     [10, 10, 20320, 21487, 20197, 20351, 29992, 20197, 19979, 24037, 20855, 26469] @
     [24110, 21161, 29992, 25143, 65306, 10] @
     join [10] (map (\<lambda>tool. asc ''- '' @ tool_name tool @ asc '': '' @ tool_description tool)
                  (available_tools self)) @
     [10, 10, 24403, 38656, 35201, 20351, 29992, 24037, 20855, 26102, 65292, 35831] @
     [22312, 22238, 22797, 20013, 21253, 21547, 31867, 20284, 36825, 26679, 30340, 26684] @
     [24335, 65306, 10] @ asc ''TOOL_CALL: tool_name('' @ [21442, 25968] @ asc '')'' @
     [10, 10, 20363, 22914, 65306, 10] @ asc ''- TOOL_CALL: get_section_structure()'' @
     [10] @ asc ''- TOOL_CALL: read_file(path='' @ [34] @ asc ''/path/to/file'' @ [34] @
     asc '')'' @ [10] @ asc ''- TOOL_CALL: generate_outline(requirements='' @
     [34, 38656, 27714, 34] @ asc '', tender_type='' @ [34, 31867, 22411, 34] @
     asc '')''"

definition initial_messages :: "'o ai_client \<Rightarrow> str \<Rightarrow> str option \<Rightarrow> chat_message list" where
  "initial_messages self prompt system_prompt =
     (case system_prompt of
        None \<Rightarrow> []
      | Some sp \<Rightarrow>
          if sp = [] then []
          else if available_tools self = [] then
            [\<lparr>role = asc ''system'', msg_content = sp, tool_call_id = None\<rparr>]
          else
            [\<lparr>role = asc ''system'', msg_content = enhanced_system_prompt self sp,
              tool_call_id = None\<rparr>]) @
     [\<lparr>role = asc ''user'', msg_content = prompt, tool_call_id = None\<rparr>]"

definition request_params :: "'o ai_client \<Rightarrow> chat_message list \<Rightarrow> request" where
  "request_params self messages =
     \<lparr>req_model = model self, req_messages = messages, req_temperature = temperature self,
      req_max_tokens = max_tokens self, req_stream = Some False, req_tools = None\<rparr>"

text \<open>\<open>message.content.strip()\<close>: \<open>AttributeError\<close> when the content is \<open>None\<close>.\<close>

definition stripped_content :: "reply \<Rightarrow> str + str" where
  "stripped_content message =
     (case reply_content message of
        None \<Rightarrow> Inl ([39] @ asc ''NoneType'' @ [39] @ asc '' object has no attribute '' @
                 [39] @ asc ''strip'' @ [39])
      | Some s \<Rightarrow> Inr (str_strip s))"

text \<open>One structured call: \<open>json.loads\<close> of the arguments (\<open>{}\<close> on \<open>JSONDecodeError\<close>),
  the dispatcher, and the line of the result.\<close>

definition structured_tool_result :: "'o python \<Rightarrow> 'o ai_client \<Rightarrow> tool_call \<Rightarrow> str" where
  "structured_tool_result py self tc =
     [24037, 20855] @ asc '' '' @ call_name tc @ asc '' '' @ [25191, 34892, 32467, 26524] @ asc '':'' @ [10] @
     call_mcp_tool py self (call_name tc)
       (case json_loads py (call_arguments tc) of None \<Rightarrow> Dict [] | Some a \<Rightarrow> a)"

text \<open>The body of the inner \<open>try\<close> (function calling).  The result is what the body returns
  or the exception that ends it, the requests sent, and the list \<open>messages\<close> as the body
  leaves it: the list is shared with \<open>request_params\<close>, so the request after a failure
  carries the messages appended before the failure.\<close>

definition function_calling ::
  "'o python \<Rightarrow> (request \<Rightarrow> str + reply) \<Rightarrow> 'o ai_client \<Rightarrow> chat_message list \<Rightarrow>
     (str + str) \<times> request list \<times> chat_message list" where
  "function_calling py create self messages =
     (let req1 = (request_params self messages)\<lparr>req_tools := Some (available_tools self)\<rparr>
      in case create req1 of
           Inl e \<Rightarrow> (Inl e, [req1], messages)
         | Inr message \<Rightarrow>
             if reply_tool_calls message = [] then
               (case stripped_content message of
                  Inl e \<Rightarrow> (Inl e, [req1], messages)
                | Inr result \<Rightarrow> (Inr (process_text_tool_calls py self result), [req1], messages))
             else
               (let tool_results = map (structured_tool_result py self) (reply_tool_calls message);
                    assistant =
                      \<lparr>role = asc ''assistant'',
                       msg_content =
                         (case reply_content message of
                            None \<Rightarrow> [25105, 23558, 20351, 29992, 24037, 20855, 26469, 24110, 21161, 24744, 12290]
                          | Some c \<Rightarrow> if c = [] then [25105, 23558, 20351, 29992, 24037, 20855, 26469, 24110, 21161, 24744, 12290] else c),
                       tool_call_id = None\<rparr>;
                    messages2 = messages @ [assistant] @
                      map (\<lambda>(tc, res). \<lparr>role = asc ''tool'', msg_content = res,
                                         tool_call_id = Some (call_id tc)\<rparr>)
                        (zip (reply_tool_calls message) tool_results);
                    req2 = \<lparr>req_model = model self, req_messages = messages2,
                            req_temperature = temperature self,
                            req_max_tokens = max_tokens self, req_stream = None,
                            req_tools = None\<rparr>
                in case create req2 of
                     Inl e \<Rightarrow> (Inl e, [req1, req2], messages2)
                   | Inr final \<Rightarrow>
                       (case stripped_content final of
                          Inl e \<Rightarrow> (Inl e, [req1, req2], messages2)
                        | Inr result \<Rightarrow> (Inr result, [req1, req2], messages2))))"

text \<open>The plain request after the inner \<open>try\<close>.\<close>

definition plain_chat ::
  "'o python \<Rightarrow> (request \<Rightarrow> str + reply) \<Rightarrow> 'o ai_client \<Rightarrow> chat_message list \<Rightarrow>
     (str + str) \<times> request list" where
  "plain_chat py create self messages =
     (let req = request_params self messages
      in case create req of
           Inl e \<Rightarrow> (Inl e, [req])
         | Inr message \<Rightarrow>
             (case stripped_content message of
                Inl e \<Rightarrow> (Inl e, [req])
              | Inr result \<Rightarrow> (Inr (process_text_tool_calls py self result), [req])))"

text \<open>The outer handler: the text for an exception that reaches it.\<close>

definition failure_text :: "'o python \<Rightarrow> 'o ai_client \<Rightarrow> str \<Rightarrow> str" where
  "failure_text py self e =
     (let l = str_lower py e
      in if sublist (asc ''api_key'') l \<or> sublist (asc ''authentication'') l then
           [9888, 65039] @ asc '' API'' @
           [23494, 38053, 35748, 35777, 22833, 36133, 65292, 35831, 26816, 26597, 37197, 32622] @
           [12290]
         else if sublist (asc ''connection'') l \<or> sublist (asc ''network'') l then
           [9888, 65039] @ asc '' '' @
           [32593, 32476, 36830, 25509, 22833, 36133, 65292, 35831, 26816, 26597, 31471, 28857] @
           asc '' '' @ base_url self @
           asc '' '' @ [26159, 21542, 21487, 35775, 38382, 12290]
         else [9888, 65039] @ asc '' AI'' @ [26381, 21153, 35843, 29992, 22833, 36133] @
              asc '': '' @ e)"

text \<open>\<open>chat\<close>: the reply (\<open>None\<close> when the method ends without \<open>return\<close>, for a provider
  other than \<open>openai\<close>) and the requests sent to the service, in order.\<close>

definition chat ::
  "'o python \<Rightarrow> (request \<Rightarrow> str + reply) \<Rightarrow> 'o ai_client \<Rightarrow> str \<Rightarrow> str option \<Rightarrow>
     str option \<times> request list" where
  "chat py create self prompt system_prompt =
     (if mock_mode self then (Some (get_mock_response py prompt system_prompt), [])
      else if provider self = asc ''openai'' then
        (let messages = initial_messages self prompt system_prompt;
             (outcome, sent) =
               (if available_tools self = [] then plain_chat py create self messages
                else (case function_calling py create self messages of
                        (Inr result, sent1, messages1) \<Rightarrow> (Inr result, sent1)
                      | (Inl e, sent1, messages1) \<Rightarrow>
                          (case plain_chat py create self messages1 of
                             (outcome2, sent2) \<Rightarrow> (outcome2, sent1 @ sent2))))
         in case outcome of
              Inr result \<Rightarrow> (Some result, sent)
            | Inl e \<Rightarrow> (Some (failure_text py self e), sent))
      else (None, []))"

section \<open>Objects of the examples\<close>

text \<open>A runtime that agrees with Python on texts of ASCII characters: no code point from
  128 on is a word character, \<open>lower\<close> maps the letters A to Z, values that are not
  strings are rendered as themselves, and no structured arguments are decoded.\<close>

definition ascii_lower :: "str \<Rightarrow> str" where
  "ascii_lower s = map (\<lambda>c. if 65 \<le> c \<and> c \<le> 90 then c + 32 else c) s"

definition no_code_point :: "nat \<Rightarrow> bool" where
  "no_code_point c = False"

definition no_json :: "str \<Rightarrow> str arguments option" where
  "no_json s = None"

definition render_str :: "str \<Rightarrow> str + str" where
  "render_str v = Inr v"

definition ascii_python :: "str python" where
  "ascii_python =
     \<lparr>str_isalnum = no_code_point, str_lower = ascii_lower, dumps_or_str = render_str,
      json_loads = no_json\<rparr>"

text \<open>A server whose \<open>read_file\<close> raises and whose other methods return a text.\<close>

definition raise_missing :: "str pyval \<Rightarrow> str + str pyval" where
  "raise_missing path = Inl (asc ''No such file'')"

definition return1 :: "str pyval \<Rightarrow> str + str pyval" where
  "return1 a = Inr (PyStr (asc ''ok''))"

definition return2 :: "str pyval \<Rightarrow> str pyval \<Rightarrow> str + str pyval" where
  "return2 a b = Inr (PyStr (asc ''ok''))"

definition return3 :: "str pyval \<Rightarrow> str pyval \<Rightarrow> str pyval \<Rightarrow> str + str pyval" where
  "return3 a b c = Inr (PyStr (asc ''ok''))"

definition example_server :: "str mcp_server_api" where
  "example_server =
     \<lparr>read_file = raise_missing, write_file = return2, list_files = return1,
      get_section_structure = Inr (PyStr (asc ''ok'')), generate_outline = return2,
      generate_subsection_content = return3,
      one_click_docx_export = Inr (PyStr (asc ''ok''))\<rparr>"

text \<open>A client with a credential: without a server, and with the server above.\<close>

definition bare_client :: "str ai_client" where
  "bare_client =
     \<lparr>provider = asc ''openai'', model = asc ''gpt-4'', api_key = asc ''sk-1'', base_url = [],
      temperature = 7 / 10, max_tokens = 4000, mcp_server = None, mock_mode = False,
      available_tools = []\<rparr>"

definition example_client :: "str ai_client" where
  "example_client =
     \<lparr>provider = asc ''openai'', model = asc ''gpt-4'', api_key = asc ''sk-1'', base_url = [],
      temperature = 7 / 10, max_tokens = 4000, mcp_server = Some example_server,
      mock_mode = False, available_tools = mcp_tool_list\<rparr>"



section \<open>The parsing rule in the words of the specification\<close>

text \<open>
  The specification's rule for the arguments: split on commas, split each segment on
  the first \<open>=\<close>, strip one layer of matching quote characters from the key and from
  the value, drop a segment without \<open>=\<close>.  White space around the key and the value is
  removed first, as the specification's example needs.  These definitions follow the
  specification; \<open>parse_arguments\<close> follows the source.
\<close>

definition spec_strip_one_layer :: "str \<Rightarrow> str" where
  "spec_strip_one_layer s =
     (if 2 \<le> length s \<and> is_quote (hd s) \<and> last s = hd s then butlast (tl s) else s)"

definition spec_parse_segment :: "(str \<times> str) list \<Rightarrow> str \<Rightarrow> (str \<times> str) list" where
  "spec_parse_segment arguments arg =
     (if 61 \<in> set arg then
        AList.update (spec_strip_one_layer (str_strip (takeWhile (\<lambda>c. c \<noteq> 61) arg)))
          (spec_strip_one_layer (str_strip (drop 1 (dropWhile (\<lambda>c. c \<noteq> 61) arg)))) arguments
      else arguments)"

definition spec_parse_arguments :: "str \<Rightarrow> (str \<times> str) list" where
  "spec_parse_arguments args_str = foldl spec_parse_segment [] (split_on 44 args_str)"

text \<open>Argument texts of the examples: \<open>a=""x""\<close>, and the segments \<open>a=""x""\<close>, \<open>junk\<close>
  and \<open> b='y'\<close>.\<close>

definition doubly_quoted :: str where
  "doubly_quoted = asc ''a='' @ [34, 34] @ asc ''x'' @ [34, 34]"

definition example_segments :: "str list" where
  "example_segments = [doubly_quoted, asc ''junk'', asc '' b='' @ [39] @ asc ''y'' @ [39]]"


section \<open>The first request of \<open>chat\<close> and the objects of its examples\<close>

text \<open>The first request that \<open>chat\<close> sends outside the mock mode: with the tool list when
  there are tools, the plain one otherwise.\<close>

definition first_request :: "'o ai_client \<Rightarrow> str \<Rightarrow> str option \<Rightarrow> request" where
  "first_request self prompt system_prompt =
     (let req = request_params self (initial_messages self prompt system_prompt)
      in if available_tools self = [] then req
         else req\<lparr>req_tools := Some (available_tools self)\<rparr>)"

text \<open>A service that answers every request with the text \<open>ok\<close> between two spaces and no
  structured call.\<close>

definition padded_reply :: "request \<Rightarrow> str + reply" where
  "padded_reply req = Inr \<lparr>reply_content = Some (asc '' ok ''), reply_tool_calls = []\<rparr>"








section \<open>Properties of the parallel task runner\<close>

subsection \<open>Dictionaries, the pool and the completion order\<close>

lemma update_fresh: "k \<notin> fst ` set al \<Longrightarrow> AList.update k v al = al @ [(k, v)]"
  by (induction al) auto

lemma foldl_record_result:
  "distinct (map fst acc @ map str_of ts) \<Longrightarrow>
   foldl (record_result str_of tf) acc ts =
     acc @ map (\<lambda>t. (str_of t, outcome_entry (yields (tf t)))) ts"
proof (induction ts arbitrary: acc)
  case Nil
  then show ?case by simp
next
  case (Cons t ts)
  have fresh: "str_of t \<notin> fst ` set acc" using Cons.prems by auto
  have "distinct (map fst (acc @ [(str_of t, outcome_entry (yields (tf t)))]) @ map str_of ts)"
    using Cons.prems by auto
  from Cons.IH[OF this] show ?case
    by (simp add: record_result_def update_fresh[OF fresh])
qed

lemma mset_yielded:
  "mset (fst (as_completed tmo fs)) = mset (map snd (filter (\<lambda>p. done_by tmo (fst p)) fs))"
  by (simp add: as_completed_def)

lemma set_yielded:
  "set (fst (as_completed tmo fs)) = snd ` {p \<in> set fs. done_by tmo (fst p)}"
  by (simp add: as_completed_def)

lemma length_yielded:
  "length (fst (as_completed tmo fs)) = length (filter (\<lambda>p. done_by tmo (fst p)) fs)"
  by (simp add: as_completed_def)

lemma distinct_map_snd_filter_zip:
  "distinct (map g ys) \<Longrightarrow> distinct (map g (map snd (filter P (zip xs ys))))"
proof (induction ys arbitrary: xs)
  case Nil
  then show ?case by simp
next
  case (Cons y ys)
  show ?case
  proof (cases xs)
    case Nil
    then show ?thesis by simp
  next
    case (Cons x xs')
    have "g y \<notin> g ` snd ` set (zip xs' ys)"
      using Cons.prems by (auto dest!: set_zip_rightD)
    then have "g y \<notin> g ` snd ` {p \<in> set (zip xs' ys). P p}" by auto
    moreover have "distinct (map g (map snd (filter P (zip xs' ys))))"
      using Cons.IH Cons.prems by simp
    ultimately show ?thesis using Cons by (auto simp: image_iff)
  qed
qed

lemma distinct_yielded:
  assumes "distinct (map str_of ts)"
  shows "distinct (map str_of (fst (as_completed tmo (zip fin ts))))"
proof -
  have "mset (map str_of (fst (as_completed tmo (zip fin ts)))) =
        mset (map str_of (map snd (filter (\<lambda>p. done_by tmo (fst p)) (zip fin ts))))"
    using mset_yielded[of tmo "zip fin ts"] by (metis mset_map)
  moreover have "distinct (map str_of (map snd (filter (\<lambda>p. done_by tmo (fst p)) (zip fin ts))))"
    by (rule distinct_map_snd_filter_zip[OF assms])
  ultimately show ?thesis by (metis mset_eq_imp_distinct_iff)
qed

lemma results_of_yielded:
  assumes "distinct (map str_of ts)"
  shows "foldl (record_result str_of tf) [] (fst (as_completed tmo (zip fin ts))) =
         map (\<lambda>t. (str_of t, outcome_entry (yields (tf t)))) (fst (as_completed tmo (zip fin ts)))"
  using foldl_record_result[of "[]" str_of "fst (as_completed tmo (zip fin ts))" tf]
    distinct_yielded[OF assms, of tmo fin] by simp

lemma map_of_entries:
  "t \<in> set ys \<Longrightarrow> distinct (map k ys) \<Longrightarrow> map_of (map (\<lambda>t. (k t, e t)) ys) (k t) = Some (e t)"
  by (induction ys) (auto simp: image_iff)

lemma map_of_entries_none:
  "x \<notin> k ` set ys \<Longrightarrow> map_of (map (\<lambda>t. (k t, e t)) ys) x = None"
  by (induction ys) auto

lemma zip_right_unique:
  "distinct ys \<Longrightarrow> (a, y) \<in> set (zip xs ys) \<Longrightarrow> (b, y) \<in> set (zip xs ys) \<Longrightarrow> a = b"
  by (metis distinct_conv_nth in_set_zip fst_conv snd_conv)

lemma min_list_zero: "(0::nat) \<in> set xs \<Longrightarrow> min_list xs = 0"
proof -
  assume z: "0 \<in> set xs"
  then have ne: "xs \<noteq> []" by auto
  have "Min (set xs) = 0" using z by (intro Min_eqI) auto
  then show ?thesis using min_list_Min[OF ne] by simp
qed

lemma count_remove1_zero:
  "count_list (remove1 (0::nat) xs) 0 = count_list xs 0 - 1"
  by (induction xs) auto

lemma count_pos_mem: "0 < count_list xs x \<Longrightarrow> x \<in> set xs"
  by (induction xs) (auto split: if_splits)

lemma count_replicate: "count_list (replicate n x) x = n"
  by (induction n) auto

lemma pool_finish_idle:
  "length ds \<le> count_list free 0 \<Longrightarrow> pool_finish free ds = ds"
proof (induction ds arbitrary: free)
  case Nil
  then show ?case by simp
next
  case (Cons d ds)
  from Cons.prems have pos: "0 < count_list free 0" by simp
  then have zin: "0 \<in> set free" by (rule count_pos_mem)
  then obtain w ws where free: "free = w # ws" by (cases free) auto
  have m: "min_list (w # ws) = 0" using zin free min_list_zero by blast
  have len: "length ds \<le> count_list (remove1 0 (w # ws)) 0"
    using Cons.prems free count_remove1_zero[of "w # ws"] by simp
  show ?case
  proof (cases d)
    case None
    have "pool_finish (remove1 0 (w # ws)) ds = ds" by (rule Cons.IH[OF len])
    then show ?thesis using None free m by simp
  next
    case (Some k)
    have "length ds \<le> count_list (k # remove1 0 (w # ws)) 0" using len by simp
    then have "pool_finish (k # remove1 0 (w # ws)) ds = ds" by (rule Cons.IH)
    then show ?thesis using Some free m by simp
  qed
qed

lemma finish_times_idle:
  "length ts \<le> count_list (executor self) 0 \<Longrightarrow>
   finish_times self tf ts = map (\<lambda>t. finishes_after (tf t)) ts"
  unfolding finish_times_def by (rule pool_finish_idle) simp

lemma idle_workers_init: "count_list (executor (mcp_server_init cfg)) 0 = max_workers cfg"
  by (simp add: mcp_server_init_def count_replicate)

lemma idle_pool_in_time:
  assumes "length ts \<le> count_list (executor self) 0"
    and "\<forall>t \<in> set ts. done_by (timeout self) (finishes_after (tf t))"
  shows "\<forall>f \<in> set (finish_times self tf ts). done_by (timeout self) f"
  using assms(2) unfolding finish_times_idle[OF assms(1)] by simp

lemma length_pool_finish: "length (pool_finish free ds) = length ds"
  by (induction free ds rule: pool_finish.induct) (auto simp: Let_def split: option.splits)

lemma length_finish_times: "length (finish_times self tf ts) = length ts"
  by (simp add: finish_times_def length_pool_finish)

lemma length_filter_zip_fst:
  "length xs = length ys \<Longrightarrow>
   length (filter (\<lambda>p. P (fst p)) (zip xs ys)) = length (filter P xs)"
  by (induction xs ys rule: list_induct2) auto

lemma success_outcome_entry: "success (outcome_entry y) = (\<not> isl y)"
  by (cases y) (simp_all add: outcome_entry_def)


lemma run_timed_out:
  assumes "list_ex (\<lambda>p. \<not> done_by (timeout self) (fst p)) (zip (finish_times self tf ts) ts)"
  shows "fst (run_parallel_tasks self str_of tf ts) =
     Inr \<lparr>total_tasks = length ts,
          completed = length (foldl (record_result str_of tf) []
             (fst (as_completed (timeout self) (zip (finish_times self tf ts) ts)))),
          results = foldl (record_result str_of tf) []
             (fst (as_completed (timeout self) (zip (finish_times self tf ts) ts))),
          success_rate = None, report_error = Some (asc ''Timeout'')\<rparr>"
  using assms by (simp add: run_parallel_tasks_def as_completed_def Let_def)

lemma run_all_done:
  assumes "\<not> list_ex (\<lambda>p. \<not> done_by (timeout self) (fst p)) (zip (finish_times self tf ts) ts)"
    and "ts \<noteq> []"
  shows "fst (run_parallel_tasks self str_of tf ts) =
     Inr \<lparr>total_tasks = length ts,
          completed = length (fst (as_completed (timeout self) (zip (finish_times self tf ts) ts))),
          results = foldl (record_result str_of tf) []
             (fst (as_completed (timeout self) (zip (finish_times self tf ts) ts))),
          success_rate = Some (of_nat (length (filter success (map snd
             (foldl (record_result str_of tf) []
               (fst (as_completed (timeout self) (zip (finish_times self tf ts) ts))))))) /
             of_nat (length ts)),
          report_error = None\<rparr>"
  using assms by (simp add: run_parallel_tasks_def as_completed_def Let_def true_div_def)



subsection \<open>Empty batch\<close>

text \<open>
  C10.  For an empty task list nothing is yielded and nothing is pending, so the method
  reaches the dictionary of the completed batch and divides by \<open>total = 0\<close>: the
  result is \<open>ZeroDivisionError\<close>, which the handler for \<open>TimeoutError\<close> does not
  catch, and it reaches the caller of \<open>parallel_generate_subsections\<close> as well.
\<close>

theorem empty_batch_raises:
  "run_parallel_tasks self str_of task_func [] = (Inl ZeroDivisionError, self) \<and>
   parallel_generate_subsections self str_of task_func [] = (Inl ZeroDivisionError, self)"
  by (simp add: parallel_generate_subsections_def run_parallel_tasks_def as_completed_def
      finish_times_def true_div_def return_tick_def executor_at_def)

subsection \<open>Fault isolation\<close>







subsection \<open>A batch cut off by the deadline\<close>

lemma length_update_le: "length (AList.update k v al) \<le> Suc (length al)"
  by (induction al) auto

lemma length_foldl_record:
  "length (foldl (record_result s f) acc ys) \<le> length acc + length ys"
proof (induction ys arbitrary: acc)
  case Nil
  then show ?case by simp
next
  case (Cons y ys)
  have "length (foldl (record_result s f) (record_result s f acc y) ys) \<le>
        length (record_result s f acc y) + length ys"
    by (rule Cons.IH)
  also have "\<dots> \<le> Suc (length acc) + length ys"
    using length_update_le[of "s y" _ acc] by (simp add: record_result_def)
  finally show ?case by simp
qed

lemma partial_report_distinct:
  assumes keys: "distinct (map str_of ts)"
    and late: "(g, u) \<in> set (zip (finish_times self tf ts) ts)"
    and g: "\<not> done_by (timeout self) g"
  shows "\<exists>r. fst (run_parallel_tasks self str_of tf ts) = Inr r \<and>
           report_error r = Some (asc ''Timeout'') \<and> success_rate r = None \<and>
           total_tasks r = length ts \<and>
           completed r = length (filter (done_by (timeout self)) (finish_times self tf ts)) \<and>
           completed r < total_tasks r \<and>
           (\<forall>(f, t) \<in> set (zip (finish_times self tf ts) ts).
              map_of (results r) (str_of t) =
                (if done_by (timeout self) f then Some (outcome_entry (yields (tf t))) else None))"
proof -
  let ?fs = "zip (finish_times self tf ts) ts"
  let ?ys = "fst (as_completed (timeout self) ?fs)"
  let ?res = "map (\<lambda>t. (str_of t, outcome_entry (yields (tf t)))) ?ys"
  have ex: "list_ex (\<lambda>p. \<not> done_by (timeout self) (fst p)) ?fs"
    using late g by (force simp: list_ex_iff)
  have run: "fst (run_parallel_tasks self str_of tf ts) =
     Inr \<lparr>total_tasks = length ts, completed = length ?res, results = ?res,
          success_rate = None, report_error = Some (asc ''Timeout'')\<rparr>"
    using run_timed_out[OF ex, of str_of] by (simp only: results_of_yielded[OF keys])
  have len: "length ?res = length (filter (done_by (timeout self)) (finish_times self tf ts))"
    by (simp add: length_yielded length_filter_zip_fst length_finish_times)
  have "length (filter (\<lambda>p. done_by (timeout self) (fst p)) ?fs) < length ?fs"
    using late g by (intro length_filter_less[of "(g, u)"]) auto
  then have less: "length ?res < length ts"
    by (simp add: length_yielded length_finish_times)
  have dts: "distinct ts" using keys by (simp add: distinct_map)
  have inj: "inj_on str_of (set ts)" using keys by (simp add: distinct_map)
  have each: "map_of ?res (str_of t) =
                (if done_by (timeout self) f then Some (outcome_entry (yields (tf t))) else None)"
    if ft: "(f, t) \<in> set ?fs" for f t
  proof (cases "done_by (timeout self) f")
    case True
    have "t \<in> set ?ys" using ft True by (force simp: set_yielded)
    then show ?thesis using True
      by (simp add: map_of_entries[OF _ distinct_yielded[OF keys]])
  next
    case False
    have "str_of t \<notin> str_of ` set ?ys"
    proof
      assume "str_of t \<in> str_of ` set ?ys"
      then obtain f' t' where p: "(f', t') \<in> set ?fs" and d: "done_by (timeout self) f'"
        and eq: "str_of t = str_of t'"
        by (auto simp: set_yielded)
      have "t \<in> set ts" "t' \<in> set ts" using ft p by (auto dest: set_zip_rightD)
      with eq inj have "t = t'" by (auto dest: inj_onD)
      with p ft dts have "f = f'" by (auto dest: zip_right_unique)
      with d False show False by simp
    qed
    then show ?thesis using False by (simp add: map_of_entries_none)
  qed
  show ?thesis unfolding run using len less each by auto
qed



text \<open>
  C1 (as amended).  When a task of a batch has not completed at the deadline, the
  method returns a partial report: \<open>"error": "Timeout"\<close> marks it, \<open>completed\<close> is the
  number of entries of \<open>results\<close> and is less than \<open>total_tasks\<close>, and the report has no
  \<open>success_rate\<close>.  When the identifiers of the batch are pairwise different,
  \<open>completed\<close> is the number of tasks that completed in time, every such task is
  recorded with its own outcome, and every other task is absent from \<open>results\<close>.
\<close>

theorem partial_report_on_timeout:
  assumes late: "(g, u) \<in> set (zip (finish_times self tf ts) ts)"
    and g: "\<not> done_by (timeout self) g"
  shows "\<exists>r. fst (run_parallel_tasks self str_of tf ts) = Inr r \<and>
           report_error r = Some (asc ''Timeout'') \<and> success_rate r = None \<and>
           total_tasks r = length ts \<and> completed r = length (results r) \<and>
           completed r < total_tasks r \<and>
           (distinct (map str_of ts) \<longrightarrow>
              completed r = length (filter (done_by (timeout self)) (finish_times self tf ts)) \<and>
              (\<forall>(f, t) \<in> set (zip (finish_times self tf ts) ts).
                 map_of (results r) (str_of t) =
                   (if done_by (timeout self) f then Some (outcome_entry (yields (tf t)))
                    else None)))"
proof -
  let ?fs = "zip (finish_times self tf ts) ts"
  let ?ys = "fst (as_completed (timeout self) ?fs)"
  let ?res = "foldl (record_result str_of tf) [] ?ys"
  have ex: "list_ex (\<lambda>p. \<not> done_by (timeout self) (fst p)) ?fs"
    using late g by (force simp: list_ex_iff)
  note run = run_timed_out[OF ex, of str_of]
  have "length (filter (\<lambda>p. done_by (timeout self) (fst p)) ?fs) < length ?fs"
    using late g by (intro length_filter_less[of "(g, u)"]) auto
  then have "length ?ys < length ts"
    by (simp add: length_yielded length_finish_times)
  moreover have "length ?res \<le> length ?ys"
    using length_foldl_record[of str_of tf "[]" ?ys] by simp
  ultimately have less: "length ?res < length ts" by simp
  have d: "completed r = length (filter (done_by (timeout self)) (finish_times self tf ts)) \<and>
      (\<forall>(f, t) \<in> set ?fs.
         map_of (results r) (str_of t) =
           (if done_by (timeout self) f then Some (outcome_entry (yields (tf t))) else None))"
    if keys: "distinct (map str_of ts)" and r: "fst (run_parallel_tasks self str_of tf ts) = Inr r" for r
    using partial_report_distinct[OF keys late g] r by auto
  define r where "r = \<lparr>total_tasks = length ts, completed = length ?res, results = ?res,
    success_rate = None, report_error = Some (asc ''Timeout'')\<rparr>"
  have rr: "fst (run_parallel_tasks self str_of tf ts) = Inr r" unfolding r_def by (rule run)
  have rf: "report_error r = Some (asc ''Timeout'')" "success_rate r = None"
    "total_tasks r = length ts" "completed r = length (results r)"
    "completed r < total_tasks r"
    using less by (simp_all add: r_def)
  show ?thesis using rr rf d[OF _ rr] by blast
qed

theorem partial_report_on_timeout_witness:
  "distinct (map str_of_str [asc ''A'', asc ''B'', asc ''C'']) \<and>
   (Some 10, asc ''B'') \<in> set (zip (finish_times (mcp_server_init \<lparr>max_workers = 24, timeout = 5\<rparr>)
        timeout_scenario [asc ''A'', asc ''B'', asc ''C'']) [asc ''A'', asc ''B'', asc ''C'']) \<and>
   \<not> done_by (timeout (mcp_server_init \<lparr>max_workers = 24, timeout = 5\<rparr>)) (Some 10) \<and>
   (\<exists>r. fst (run_parallel_tasks (mcp_server_init \<lparr>max_workers = 24, timeout = 5\<rparr>) str_of_str timeout_scenario
          [asc ''A'', asc ''B'', asc ''C'']) = Inr r \<and>
        report_error r = Some (asc ''Timeout'') \<and> success_rate r = None \<and>
        total_tasks r = 3 \<and> completed r = 2 \<and>
        map_of (results r) (asc ''A'') =
          Some \<lparr>success = True, content = Some (asc ''done''), error = None\<rparr> \<and>
        map_of (results r) (asc ''B'') = None \<and>
        map_of (results r) (asc ''C'') =
          Some \<lparr>success = False, content = None, error = Some (asc ''x'')\<rparr>)"
proof -
  let ?cfg = "mcp_server_init \<lparr>max_workers = 24, timeout = 5\<rparr>"
  let ?ts = "[asc ''A'', asc ''B'', asc ''C'']"
  have h1: "distinct (map str_of_str ?ts)"
    by code_simp
  have z: "zip (finish_times ?cfg timeout_scenario ?ts) ?ts =
           [(Some 1, asc ''A''), (Some 10, asc ''B''), (Some 1, asc ''C'')]"
    by code_simp
  have h2: "(Some 10, asc ''B'') \<in> set (zip (finish_times ?cfg timeout_scenario ?ts) ?ts)"
    unfolding z by simp
  have h3: "\<not> done_by (timeout ?cfg) (Some 10)"
    by (simp add: mcp_server_init_def)
  have fin: "finish_times ?cfg timeout_scenario ?ts = [Some 1, Some 10, Some 1]"
    by code_simp
  have ea: "outcome_entry (yields (timeout_scenario (asc ''A''))) =
            \<lparr>success = True, content = Some (asc ''done''), error = None\<rparr>"
    by code_simp
  have ec: "outcome_entry (yields (timeout_scenario (asc ''C''))) =
            \<lparr>success = False, content = None, error = Some (asc ''x'')\<rparr>"
    by code_simp
  from partial_report_on_timeout[OF h2 h3, of str_of_str] h1
  obtain r where r: "fst (run_parallel_tasks ?cfg str_of_str timeout_scenario ?ts) = Inr r"
    "report_error r = Some (asc ''Timeout'')" "success_rate r = None"
    "total_tasks r = length ?ts"
    "completed r = length (filter (done_by (timeout ?cfg)) (finish_times ?cfg timeout_scenario ?ts))"
    "\<forall>(f, t) \<in> set (zip (finish_times ?cfg timeout_scenario ?ts) ?ts).
        map_of (results r) (str_of_str t) =
          (if done_by (timeout ?cfg) f then Some (outcome_entry (yields (timeout_scenario t)))
           else None)"
    by blast
  have c: "completed r = 2" using r(5) unfolding fin by (simp add: mcp_server_init_def)
  have t: "total_tasks r = 3" using r(4) by simp
  have m: "map_of (results r) (asc ''A'') =
             Some \<lparr>success = True, content = Some (asc ''done''), error = None\<rparr>"
     "map_of (results r) (asc ''B'') = None"
     "map_of (results r) (asc ''C'') =
             Some \<lparr>success = False, content = None, error = Some (asc ''x'')\<rparr>"
    using r(6) unfolding z by (simp_all add: str_of_str_def ea ec mcp_server_init_def)
  show ?thesis using h1 h2 h3 r(1,2,3) c t m by blast
qed

text \<open>The scenario A (1 s, succeeds), B (10 s), C (1 s, fails with "x") under a deadline
  of 5 s: the report is the partial one, and it has no \<open>success_rate\<close>, so the rate is
  not 2/3.\<close>

theorem timeout_scenario_no_success_rate:
  "fst (run_parallel_tasks (mcp_server_init \<lparr>max_workers = 24, timeout = 5\<rparr>) str_of_str timeout_scenario
       [asc ''A'', asc ''B'', asc ''C'']) =
     Inr \<lparr>total_tasks = 3, completed = 2,
          results = [(asc ''A'', \<lparr>success = True, content = Some (asc ''done''), error = None\<rparr>),
                     (asc ''C'', \<lparr>success = False, content = None, error = Some (asc ''x'')\<rparr>)],
          success_rate = None, report_error = Some (asc ''Timeout'')\<rparr> \<and>
   (None :: rat option) \<noteq> Some (2 / 3)"
  by code_simp

subsection \<open>A batch that completes in time\<close>

lemma complete_report_distinct:
  assumes ne: "ts \<noteq> []"
    and intime: "\<forall>f \<in> set (finish_times self tf ts). done_by (timeout self) f"
    and keys: "distinct (map str_of ts)"
  shows "\<exists>r. fst (run_parallel_tasks self str_of tf ts) = Inr r \<and>
           total_tasks r = length ts \<and> completed r = length ts \<and> report_error r = None \<and>
           success_rate r =
             Some (of_nat (length (filter (\<lambda>t. \<not> isl (yields (tf t))) ts)) / of_nat (length ts)) \<and>
           ((\<forall>t \<in> set ts. \<not> isl (yields (tf t))) \<longrightarrow> success_rate r = Some 1)"
proof -
  let ?fs = "zip (finish_times self tf ts) ts"
  let ?ys = "fst (as_completed (timeout self) ?fs)"
  let ?res = "map (\<lambda>t. (str_of t, outcome_entry (yields (tf t)))) ?ys"
  have all: "\<forall>p \<in> set ?fs. done_by (timeout self) (fst p)"
    using intime by (auto dest: set_zip_leftD)
  then have nex: "\<not> list_ex (\<lambda>p. \<not> done_by (timeout self) (fst p)) ?fs"
    by (simp add: list_ex_iff)
  have keep: "filter (\<lambda>p. done_by (timeout self) (fst p)) ?fs = ?fs"
    using all by (simp add: filter_id_conv)
  have ms: "mset ?ys = mset ts"
    unfolding mset_yielded keep by (simp add: length_finish_times)
  then have len: "length ?ys = length ts" by (metis size_mset)
  have cnt: "length (filter success (map snd ?res)) =
             length (filter (\<lambda>t. \<not> isl (yields (tf t))) ts)"
  proof -
    have "length (filter success (map snd ?res)) =
          length (filter (\<lambda>t. \<not> isl (yields (tf t))) ?ys)"
      by (simp add: filter_map comp_def success_outcome_entry)
    also have "\<dots> = size (filter_mset (\<lambda>t. \<not> isl (yields (tf t))) (mset ?ys))"
      by (metis mset_filter size_mset)
    also have "\<dots> = length (filter (\<lambda>t. \<not> isl (yields (tf t))) ts)"
      unfolding ms by (metis mset_filter size_mset)
    finally show ?thesis .
  qed
  have run: "fst (run_parallel_tasks self str_of tf ts) =
     Inr \<lparr>total_tasks = length ts, completed = length ts, results = ?res,
          success_rate = Some (of_nat (length (filter (\<lambda>t. \<not> isl (yields (tf t))) ts)) /
                               of_nat (length ts)),
          report_error = None\<rparr>"
    using run_all_done[OF nex ne, of str_of]
    by (simp only: results_of_yielded[OF keys] cnt len)
  have one: "(of_nat (length (filter (\<lambda>t. \<not> isl (yields (tf t))) ts)) :: rat) / of_nat (length ts) = 1"
    if "\<forall>t \<in> set ts. \<not> isl (yields (tf t))"
    using that ne by (simp add: filter_id_conv)
  show ?thesis unfolding run using one by auto
qed

text \<open>
  C4 (as amended).  For a batch of N > 0 tasks whose futures all complete within the
  deadline, the report has \<open>completed = total_tasks = N\<close> and no timeout marker.  When
  the identifiers of the batch are pairwise different, \<open>success_rate\<close> is the number
  of tasks that returned divided by N; it is 1 when all of them returned.  The futures
  complete within the deadline when the executor has N idle workers and every task
  takes no longer than the deadline (\<open>idle_pool_in_time\<close>), as on a server that has run
  no batch before (\<open>idle_workers_init\<close>); the size of the pool alone does not give it
  (\<open>busy_pool_times_out\<close>).
\<close>

theorem complete_report:
  assumes ne: "ts \<noteq> []"
    and intime: "\<forall>f \<in> set (finish_times self tf ts). done_by (timeout self) f"
  shows "\<exists>r. fst (run_parallel_tasks self str_of tf ts) = Inr r \<and>
           total_tasks r = length ts \<and> completed r = length ts \<and> report_error r = None \<and>
           (distinct (map str_of ts) \<longrightarrow>
              success_rate r =
                Some (of_nat (length (filter (\<lambda>t. \<not> isl (yields (tf t))) ts)) /
                      of_nat (length ts)) \<and>
              ((\<forall>t \<in> set ts. \<not> isl (yields (tf t))) \<longrightarrow> success_rate r = Some 1))"
proof -
  let ?fs = "zip (finish_times self tf ts) ts"
  let ?ys = "fst (as_completed (timeout self) ?fs)"
  have all: "\<forall>p \<in> set ?fs. done_by (timeout self) (fst p)"
    using intime by (auto dest: set_zip_leftD)
  then have nex: "\<not> list_ex (\<lambda>p. \<not> done_by (timeout self) (fst p)) ?fs"
    by (simp add: list_ex_iff)
  have keep: "filter (\<lambda>p. done_by (timeout self) (fst p)) ?fs = ?fs"
    using all by (simp add: filter_id_conv)
  have len: "length ?ys = length ts"
    by (simp add: length_yielded keep length_finish_times)
  note run = run_all_done[OF nex ne, of str_of]
  have d: "success_rate r =
             Some (of_nat (length (filter (\<lambda>t. \<not> isl (yields (tf t))) ts)) /
                   of_nat (length ts)) \<and>
           ((\<forall>t \<in> set ts. \<not> isl (yields (tf t))) \<longrightarrow> success_rate r = Some 1)"
    if keys: "distinct (map str_of ts)" and r: "fst (run_parallel_tasks self str_of tf ts) = Inr r" for r
    using complete_report_distinct[OF ne intime keys] r by auto
  define r where "r = \<lparr>total_tasks = length ts, completed = length ?ys,
    results = foldl (record_result str_of tf) [] ?ys,
    success_rate = Some (of_nat (length (filter success (map snd
      (foldl (record_result str_of tf) [] ?ys)))) / of_nat (length ts)),
    report_error = None\<rparr>"
  have rr: "fst (run_parallel_tasks self str_of tf ts) = Inr r" unfolding r_def by (rule run)
  have rf: "total_tasks r = length ts" "completed r = length ts" "report_error r = None"
    using len by (simp_all add: r_def)
  show ?thesis using rr rf d[OF _ rr] by blast
qed

theorem complete_report_witness:
  "[asc ''A'', asc ''B'', asc ''C''] \<noteq> [] \<and>
   list_all (done_by (timeout (mcp_server_init default_config)))
     (finish_times (mcp_server_init default_config) always_succeeds
        [asc ''A'', asc ''B'', asc ''C'']) \<and>
   distinct (map str_of_str [asc ''A'', asc ''B'', asc ''C'']) \<and>
   (\<exists>r. fst (run_parallel_tasks (mcp_server_init default_config) str_of_str always_succeeds
          [asc ''A'', asc ''B'', asc ''C'']) = Inr r \<and>
        total_tasks r = 3 \<and> completed r = 3 \<and> report_error r = None \<and>
        success_rate r = Some 1)"
proof -
  let ?ts = "[asc ''A'', asc ''B'', asc ''C'']"
  let ?srv = "mcp_server_init default_config"
  have h1: "?ts \<noteq> []" by simp
  have h2: "length ?ts \<le> count_list (executor ?srv) 0"
    by (simp add: idle_workers_init default_config_def)
  have h3: "\<forall>t \<in> set ?ts. done_by (timeout ?srv) (finishes_after (always_succeeds t))"
    by (simp add: always_succeeds_def default_config_def mcp_server_init_def)
  note h5 = idle_pool_in_time[OF h2 h3]
  have h4: "distinct (map str_of_str ?ts)" by code_simp
  have ok: "\<forall>t \<in> set ?ts. \<not> isl (yields (always_succeeds t))"
    by (simp add: always_succeeds_def)
  from complete_report[OF h1 h5, of str_of_str] h4
  obtain r where r: "fst (run_parallel_tasks ?srv str_of_str always_succeeds ?ts) = Inr r"
    "total_tasks r = length ?ts" "completed r = length ?ts" "report_error r = None"
    "(\<forall>t \<in> set ?ts. \<not> isl (yields (always_succeeds t))) \<longrightarrow> success_rate r = Some 1"
    by blast
  have s: "success_rate r = Some 1" using r(5) ok by blast
  have l: "list_all (done_by (timeout ?srv)) (finish_times ?srv always_succeeds ?ts)"
    using h5 by (simp only: list_all_iff)
  have n: "total_tasks r = 3" "completed r = 3" using r(2,3) by simp_all
  show ?thesis using h1 l h4 r(1,4) s n by blast
qed

text \<open>Two tasks with the same identifier share one entry of \<open>results\<close>: both succeed,
  both are counted in \<open>completed\<close>, and the rate is 1/2.\<close>

theorem duplicate_identifiers_rate:
  "fst (run_parallel_tasks (mcp_server_init default_config) str_of_str always_succeeds
       [asc ''A'', asc ''A'']) =
     Inr \<lparr>total_tasks = 2, completed = 2,
          results = [(asc ''A'', \<lparr>success = True, content = Some (asc ''done''), error = None\<rparr>)],
          success_rate = Some (1 / 2), report_error = None\<rparr> \<and>
   yields (always_succeeds (asc ''A'')) = Inr (asc ''done'')"
  by code_simp

text \<open>The executor outlives a batch.  On a server with one worker and a deadline of 5
  ticks, a batch of one task of 10 ticks is cut off by the deadline and leaves the
  worker busy for 5 more ticks; the next batch, one task of 1 tick, meets the size of
  the pool and takes less than the deadline, and is cut off as well.\<close>

lemma busy_pool_times_out:
  "run_parallel_tasks small_server str_of_str slow_then_quick [asc ''B''] =
     (Inr \<lparr>total_tasks = 1, completed = 0, results = [], success_rate = None,
           report_error = Some (asc ''Timeout'')\<rparr>,
      small_server\<lparr>executor := [5]\<rparr>) \<and>
   length [asc ''A''] \<le> max_workers (small_server\<lparr>executor := [5]\<rparr>) \<and>
   done_by (timeout (small_server\<lparr>executor := [5]\<rparr>))
     (finishes_after (slow_then_quick (asc ''A''))) \<and>
   fst (run_parallel_tasks (small_server\<lparr>executor := [5]\<rparr>) str_of_str slow_then_quick
          [asc ''A'']) =
     Inr \<lparr>total_tasks = 1, completed = 0, results = [], success_rate = None,
          report_error = Some (asc ''Timeout'')\<rparr>"
  by code_simp

section \<open>Properties of the tool registry\<close>

lemma register_tool_registry:
  "tools_mcp_server self = Some srv \<Longrightarrow>
   tools_registry (snd (register_tool F N self func name)) =
     (tools_registry self)(tool_name_of N func name \<mapsto> func)"
  by (simp add: register_tool_def Let_def split: sum.splits prod.splits)

lemma register_tool_server:
  "tools_mcp_server self = Some srv \<Longrightarrow>
   \<exists>srv'. tools_mcp_server (snd (register_tool F N self func name)) = Some srv'"
  by (simp add: register_tool_def Let_def split: sum.splits prod.splits)

lemma register_tool_other:
  "m \<noteq> tool_name_of N func name \<Longrightarrow>
   get_tool_by_name (snd (register_tool F N self func name)) m = get_tool_by_name self m"
  by (simp add: register_tool_def get_tool_by_name_def Let_def
      split: option.splits sum.splits prod.splits)

text \<open>
  C8 (as amended).  On an object whose server has been created, registering \<open>c1\<close> and
  then \<open>c2\<close> under the same name that is not empty makes \<open>get_tool_by_name\<close> return
  \<open>c2\<close>, and it leaves the tool of every other name as it was.  The name of a
  registration is the \<open>name\<close> argument, or the function's own name when the argument
  is absent or empty; two registrations with the same name in this sense behave in the
  same way.  Whether a call of \<open>register_tool\<close> raises does not depend on the registry,
  so a name that is registered already causes no error (the second registration returns
  when the library accepts the function).  A fresh object resolves no name.  On an
  object whose server has not been created, \<open>register_tool\<close> raises \<open>RuntimeError\<close>
  and registers nothing.
\<close>

theorem registry_last_registration_wins:
  "(tools_mcp_server self = Some srv \<and> k \<noteq> [] \<longrightarrow>
      get_tool_by_name
        (snd (register_tool F N (snd (register_tool F N self c1 (Some k))) c2 (Some k))) k =
      Some c2) \<and>
   (tools_mcp_server self = Some srv \<and>
    tool_name_of N c1 name1 = n \<and> tool_name_of N c2 name2 = n \<longrightarrow>
      get_tool_by_name
        (snd (register_tool F N (snd (register_tool F N self c1 name1)) c2 name2)) n = Some c2 \<and>
      (m \<noteq> n \<longrightarrow>
         get_tool_by_name
           (snd (register_tool F N (snd (register_tool F N self c1 name1)) c2 name2)) m =
         get_tool_by_name self m)) \<and>
   fst (register_tool F N (self\<lparr>tools_registry := reg\<rparr>) c2 name2) =
     fst (register_tool F N self c2 name2) \<and>
   (tools_mcp_server self = Some srv \<and> F srv c2 = Inr (srv', c') \<longrightarrow>
      fst (register_tool F N self c2 name2) = Inr c') \<and>
   get_tool_by_name (base_init :: ('f, 's) base_mcp_tools) m = None \<and>
   (k \<noteq> [] \<longrightarrow> tool_name_of N c1 (Some k) = k) \<and>
   tool_name_of N c1 (Some []) = N c1 \<and> tool_name_of N c1 None = N c1 \<and>
   (tools_mcp_server self = None \<longrightarrow>
      register_tool F N self c1 name1 =
        (Inl (RuntimeError
           (asc ''MCP server not initialized. Call create_mcp_server() first.'')), self))"
proof -
  let ?s1 = "snd (register_tool F N self c1 name1)"
  have a: "get_tool_by_name (snd (register_tool F N
             (snd (register_tool F N self c1 x1)) c2 x2)) n = Some c2"
    if srv: "tools_mcp_server self = Some srv"
      and same: "tool_name_of N c1 x1 = n" "tool_name_of N c2 x2 = n" for x1 x2 n
  proof -
    obtain srv1 where s1: "tools_mcp_server (snd (register_tool F N self c1 x1)) = Some srv1"
      using register_tool_server[OF srv] by blast
    show ?thesis
      by (simp add: get_tool_by_name_def register_tool_registry[OF s1] same)
  qed
  have f: "k \<noteq> [] \<Longrightarrow> tool_name_of N c (Some k) = k" for c
    by (simp add: tool_name_of_def)
  have a0: "get_tool_by_name
        (snd (register_tool F N (snd (register_tool F N self c1 (Some k))) c2 (Some k))) k =
      Some c2"
    if srv: "tools_mcp_server self = Some srv" and k: "k \<noteq> []"
    by (rule a[OF srv f[OF k] f[OF k]])
  have b: "fst (register_tool F N (self\<lparr>tools_registry := reg\<rparr>) c2 name2) =
        fst (register_tool F N self c2 name2)"
    by (simp add: register_tool_def Let_def split: option.splits sum.splits prod.splits)
  have c: "F srv c2 = Inr (srv', c') \<Longrightarrow> fst (register_tool F N self c2 name2) = Inr c'"
    if srv: "tools_mcp_server self = Some srv"
    using srv by (simp add: register_tool_def Let_def)
  have d: "get_tool_by_name (base_init :: ('f, 's) base_mcp_tools) m = None"
    by (simp add: get_tool_by_name_def base_init_def)
  have e: "m \<noteq> n \<Longrightarrow> get_tool_by_name (snd (register_tool F N ?s1 c2 name2)) m =
        get_tool_by_name self m"
    if same: "tool_name_of N c1 name1 = n" "tool_name_of N c2 name2 = n"
    using same by (simp add: register_tool_other)
  have g: "tool_name_of N c1 (Some []) = N c1" "tool_name_of N c1 None = N c1"
    by (simp_all add: tool_name_of_def)
  have h: "tools_mcp_server self = None \<Longrightarrow>
      register_tool F N self c1 name1 =
        (Inl (RuntimeError
           (asc ''MCP server not initialized. Call create_mcp_server() first.'')), self)"
    by (simp add: register_tool_def)
  from a0 a[of name1 n name2] b c d e f[of c1] g h show ?thesis by blast
qed

theorem registry_last_registration_wins_witness:
  "tools_mcp_server ready_tools = Some () \<and> asc ''add'' \<noteq> [] \<and>
   get_tool_by_name
     (snd (register_tool accept_tool id
        (snd (register_tool accept_tool id ready_tools (asc ''first'') (Some (asc ''add''))))
        (asc ''second'') (Some (asc ''add'')))) (asc ''add'') = Some (asc ''second'') \<and>
   fst (register_tool accept_tool id
        (snd (register_tool accept_tool id ready_tools (asc ''first'') (Some (asc ''add''))))
        (asc ''second'') (Some (asc ''add''))) = Inr (asc ''second'') \<and>
   asc ''sub'' \<noteq> asc ''add'' \<and>
   get_tool_by_name
     (snd (register_tool accept_tool id
        (snd (register_tool accept_tool id ready_tools (asc ''first'') (Some (asc ''add''))))
        (asc ''second'') (Some (asc ''add'')))) (asc ''sub'') =
     get_tool_by_name ready_tools (asc ''sub'') \<and>
   tools_mcp_server (base_init :: (str, unit) base_mcp_tools) = None \<and>
   register_tool accept_tool id (base_init :: (str, unit) base_mcp_tools) (asc ''first'')
       (Some (asc ''add'')) =
     (Inl (RuntimeError (asc ''MCP server not initialized. Call create_mcp_server() first.'')),
      base_init)"
proof -
  have h1: "tools_mcp_server ready_tools = Some ()" by (simp add: ready_tools_def)
  have h2: "asc ''add'' \<noteq> []" by (simp add: asc_def)
  have h3: "tool_name_of id (asc ''first'') (Some (asc ''add'')) = asc ''add''"
    by (simp add: tool_name_of_def asc_def)
  have h4: "tool_name_of id (asc ''second'') (Some (asc ''add'')) = asc ''add''"
    by (simp add: tool_name_of_def asc_def)
  have h5: "asc ''sub'' \<noteq> asc ''add''" by (simp add: asc_def)
  have h6: "tools_mcp_server (base_init :: (str, unit) base_mcp_tools) = None"
    by (simp add: base_init_def)
  have r: "fst (register_tool accept_tool id
        (snd (register_tool accept_tool id ready_tools (asc ''first'') (Some (asc ''add''))))
        (asc ''second'') (Some (asc ''add''))) = Inr (asc ''second'')"
    by (simp add: register_tool_def ready_tools_def accept_tool_def Let_def)
  note t = registry_last_registration_wins[where self = ready_tools and srv = "()"
      and k = "asc ''add''" and F = accept_tool and N = id and ?c1.0 = "asc ''first''"
      and ?c2.0 = "asc ''second''" and ?name1.0 = "Some (asc ''add'')"
      and ?name2.0 = "Some (asc ''add'')" and n = "asc ''add''" and m = "asc ''sub''"]
  have 1: "get_tool_by_name
     (snd (register_tool accept_tool id
        (snd (register_tool accept_tool id ready_tools (asc ''first'') (Some (asc ''add''))))
        (asc ''second'') (Some (asc ''add'')))) (asc ''add'') = Some (asc ''second'')"
    using t h1 h2 by blast
  have 2: "get_tool_by_name
     (snd (register_tool accept_tool id
        (snd (register_tool accept_tool id ready_tools (asc ''first'') (Some (asc ''add''))))
        (asc ''second'') (Some (asc ''add'')))) (asc ''sub'') =
     get_tool_by_name ready_tools (asc ''sub'')"
    using t h1 h3 h4 h5 by blast
  note t0 = registry_last_registration_wins[where self = "base_init :: (str, unit) base_mcp_tools"
      and F = accept_tool and N = id and ?c1.0 = "asc ''first''"
      and ?name1.0 = "Some (asc ''add'')"]
  have 3: "register_tool accept_tool id (base_init :: (str, unit) base_mcp_tools) (asc ''first'')
       (Some (asc ''add'')) =
     (Inl (RuntimeError (asc ''MCP server not initialized. Call create_mcp_server() first.'')),
      base_init)"
    using t0 h6 by blast
  from h1 h2 1 r h5 2 h6 3 show ?thesis by blast
qed

text \<open>Two registrations under the empty name go under the names of the two functions:
  the empty name resolves to nothing and both functions stay registered.  A
  registration on an object without a server raises, and its name resolves to nothing
  afterwards.\<close>

theorem registration_under_empty_name:
  "get_tool_by_name
     (snd (register_tool accept_tool id
        (snd (register_tool accept_tool id ready_tools (asc ''first'') (Some [])))
        (asc ''second'') (Some []))) [] = None \<and>
   get_tool_by_name
     (snd (register_tool accept_tool id
        (snd (register_tool accept_tool id ready_tools (asc ''first'') (Some [])))
        (asc ''second'') (Some []))) (asc ''first'') = Some (asc ''first'') \<and>
   get_tool_by_name
     (snd (register_tool accept_tool id
        (snd (register_tool accept_tool id ready_tools (asc ''first'') (Some [])))
        (asc ''second'') (Some []))) (asc ''second'') = Some (asc ''second'') \<and>
   fst (register_tool accept_tool id (base_init :: (str, unit) base_mcp_tools) (asc ''first'')
          (Some (asc ''add''))) =
     Inl (RuntimeError (asc ''MCP server not initialized. Call create_mcp_server() first.'')) \<and>
   get_tool_by_name
     (snd (register_tool accept_tool id
        (snd (register_tool accept_tool id (base_init :: (str, unit) base_mcp_tools)
           (asc ''first'') (Some (asc ''add''))))
        (asc ''second'') (Some (asc ''add'')))) (asc ''add'') = None"
  by (simp add: register_tool_def get_tool_by_name_def ready_tools_def base_init_def
      accept_tool_def tool_name_of_def asc_def Let_def)

section \<open>Properties of the dispatcher\<close>

lemma tool_names: "map tool_name mcp_tool_list =
  [asc ''read_file'', asc ''write_file'', asc ''list_files'', asc ''get_section_structure'',
   asc ''generate_outline'', asc ''generate_subsection_content'', asc ''one_click_docx_export'']"
  by (simp add: mcp_tool_list_def)

lemma tool_branch_unknown:
  "name \<notin> set (map tool_name mcp_tool_list) \<Longrightarrow> tool_branch srv name arguments = None"
  unfolding tool_names by (simp add: tool_branch_def)

text \<open>
  C2 (as amended).  \<open>_call_mcp_tool\<close> returns a text for every name and every
  arguments, and the text is of one of four kinds.  On a client without a server it is
  the text "MCP server not initialised", whatever the name.  On a client with a
  server: a name that is none of the seven tools gives the text "unknown tool"
  followed by the name; an exception raised while the arguments are read or by the
  method of the server, and an exception raised while the result is rendered, give the
  text "tool call failed" followed by \<open>str(e)\<close>; otherwise the text is the rendered
  result.  For \<open>read_file\<close>: a missing \<open>path\<close> is the \<open>KeyError\<close>, arguments that
  are no dictionary are the \<open>TypeError\<close>, and an exception of the method is reported
  with its message.
\<close>

theorem dispatcher_results:
  "(mcp_server self = None \<longrightarrow>
      call_mcp_tool py self name arguments =
        asc ''MCP'' @ [26381, 21153, 22120, 26410, 21021, 22987, 21270]) \<and>
   (mcp_server self = Some srv \<longrightarrow>
      (name \<notin> set (map tool_name mcp_tool_list) \<longrightarrow>
         call_mcp_tool py self name arguments =
           [26410, 30693, 30340, 24037, 20855] @ asc '': '' @ name) \<and>
      (tool_branch srv name arguments = Some (Inl e) \<longrightarrow>
         call_mcp_tool py self name arguments =
           [24037, 20855, 35843, 29992, 22833, 36133] @ asc '': '' @ e) \<and>
      (tool_branch srv name arguments = Some (Inr v) \<and> result_text py v = Inl e \<longrightarrow>
         call_mcp_tool py self name arguments =
           [24037, 20855, 35843, 29992, 22833, 36133] @ asc '': '' @ e) \<and>
      (tool_branch srv name arguments = Some (Inr v) \<and> result_text py v = Inr s \<longrightarrow>
         call_mcp_tool py self name arguments = s) \<and>
      (arguments = Dict d \<and> map_of d (asc ''path'') = Some p \<and> read_file srv p = Inl e \<longrightarrow>
         call_mcp_tool py self (asc ''read_file'') arguments =
           [24037, 20855, 35843, 29992, 22833, 36133] @ asc '': '' @ e) \<and>
      (arguments = Dict d \<and> map_of d (asc ''path'') = None \<longrightarrow>
         call_mcp_tool py self (asc ''read_file'') arguments =
           [24037, 20855, 35843, 29992, 22833, 36133] @ asc '': '' @
           [39] @ asc ''path'' @ [39]) \<and>
      (arguments = NotDict e \<longrightarrow>
         call_mcp_tool py self (asc ''read_file'') arguments =
           [24037, 20855, 35843, 29992, 22833, 36133] @ asc '': '' @ e)) \<and>
   (mcp_server self = None \<and>
      call_mcp_tool py self name arguments =
        asc ''MCP'' @ [26381, 21153, 22120, 26410, 21021, 22987, 21270] \<or>
    (\<exists>srv'. mcp_server self = Some srv' \<and>
       (tool_branch srv' name arguments = None \<and>
          call_mcp_tool py self name arguments =
            [26410, 30693, 30340, 24037, 20855] @ asc '': '' @ name \<or>
        (\<exists>e'. call_mcp_tool py self name arguments =
            [24037, 20855, 35843, 29992, 22833, 36133] @ asc '': '' @ e') \<or>
        (\<exists>v'. tool_branch srv' name arguments = Some (Inr v') \<and>
            result_text py v' = Inr (call_mcp_tool py self name arguments)))))"
proof -
  have n: "mcp_server self = None \<Longrightarrow>
      call_mcp_tool py self name arguments =
        asc ''MCP'' @ [26381, 21153, 22120, 26410, 21021, 22987, 21270]"
    by (simp add: call_mcp_tool_def)
  have a: "name \<notin> set (map tool_name mcp_tool_list) \<Longrightarrow>
      call_mcp_tool py self name arguments =
        [26410, 30693, 30340, 24037, 20855] @ asc '': '' @ name"
    if srv: "mcp_server self = Some srv"
    using srv by (simp add: call_mcp_tool_def tool_branch_unknown)
  have b: "tool_branch srv name arguments = Some (Inl e) \<Longrightarrow>
      call_mcp_tool py self name arguments =
        [24037, 20855, 35843, 29992, 22833, 36133] @ asc '': '' @ e"
    if srv: "mcp_server self = Some srv"
    using srv by (simp add: call_mcp_tool_def and_then_def)
  have c: "tool_branch srv name arguments = Some (Inr v) \<Longrightarrow> result_text py v = Inl e \<Longrightarrow>
      call_mcp_tool py self name arguments =
        [24037, 20855, 35843, 29992, 22833, 36133] @ asc '': '' @ e"
    if srv: "mcp_server self = Some srv"
    using srv by (simp add: call_mcp_tool_def and_then_def)
  have d: "tool_branch srv name arguments = Some (Inr v) \<Longrightarrow> result_text py v = Inr s \<Longrightarrow>
      call_mcp_tool py self name arguments = s"
    if srv: "mcp_server self = Some srv"
    using srv by (simp add: call_mcp_tool_def and_then_def)
  have f: "arguments = Dict d \<Longrightarrow> map_of d (asc ''path'') = Some p \<Longrightarrow>
      read_file srv p = Inl e \<Longrightarrow>
      call_mcp_tool py self (asc ''read_file'') arguments =
        [24037, 20855, 35843, 29992, 22833, 36133] @ asc '': '' @ e"
    if srv: "mcp_server self = Some srv"
    using srv by (simp add: call_mcp_tool_def tool_branch_def and_then_def subscript_def)
  have g: "arguments = Dict d \<Longrightarrow> map_of d (asc ''path'') = None \<Longrightarrow>
      call_mcp_tool py self (asc ''read_file'') arguments =
        [24037, 20855, 35843, 29992, 22833, 36133] @ asc '': '' @ [39] @ asc ''path'' @ [39]"
    if srv: "mcp_server self = Some srv"
    using srv by (simp add: call_mcp_tool_def tool_branch_def and_then_def subscript_def)
  have h: "arguments = NotDict e \<Longrightarrow>
      call_mcp_tool py self (asc ''read_file'') arguments =
        [24037, 20855, 35843, 29992, 22833, 36133] @ asc '': '' @ e"
    if srv: "mcp_server self = Some srv"
    using srv by (simp add: call_mcp_tool_def tool_branch_def and_then_def subscript_def)
  have k: "mcp_server self = None \<and>
      call_mcp_tool py self name arguments =
        asc ''MCP'' @ [26381, 21153, 22120, 26410, 21021, 22987, 21270] \<or>
    (\<exists>srv'. mcp_server self = Some srv' \<and>
       (tool_branch srv' name arguments = None \<and>
          call_mcp_tool py self name arguments =
            [26410, 30693, 30340, 24037, 20855] @ asc '': '' @ name \<or>
        (\<exists>e'. call_mcp_tool py self name arguments =
            [24037, 20855, 35843, 29992, 22833, 36133] @ asc '': '' @ e') \<or>
        (\<exists>v'. tool_branch srv' name arguments = Some (Inr v') \<and>
            result_text py v' = Inr (call_mcp_tool py self name arguments))))"
  proof (cases "mcp_server self")
    case None
    then show ?thesis using n by simp
  next
    case (Some srv')
    show ?thesis
    proof (cases "tool_branch srv' name arguments")
      case None
      then show ?thesis using Some by (simp add: call_mcp_tool_def)
    next
      case outcome: (Some outcome)
      show ?thesis
      proof (cases "and_then outcome (result_text py)")
        case (Inl e')
        then show ?thesis using Some outcome by (simp add: call_mcp_tool_def)
      next
        case (Inr s')
        then obtain v' where "outcome = Inr v'" "result_text py v' = Inr s'"
          by (cases outcome) (simp_all add: and_then_def)
        then show ?thesis using Some outcome Inr by (simp add: call_mcp_tool_def)
      qed
    qed
  qed
  from n a b c d f g h k show ?thesis by blast
qed

theorem dispatcher_results_witness:
  "mcp_server example_client = Some example_server \<and>
   asc ''foo'' \<notin> set (map tool_name mcp_tool_list) \<and>
   call_mcp_tool ascii_python example_client (asc ''foo'') (Dict []) =
     [26410, 30693, 30340, 24037, 20855] @ asc '': '' @ asc ''foo'' \<and>
   map_of [(asc ''path'', PyStr (asc ''a.md''))] (asc ''path'') = Some (PyStr (asc ''a.md'')) \<and>
   read_file example_server (PyStr (asc ''a.md'')) = Inl (asc ''No such file'') \<and>
   call_mcp_tool ascii_python example_client (asc ''read_file'')
       (Dict [(asc ''path'', PyStr (asc ''a.md''))]) =
     [24037, 20855, 35843, 29992, 22833, 36133] @ asc '': '' @ asc ''No such file'' \<and>
   call_mcp_tool ascii_python example_client (asc ''read_file'')
       (NotDict (asc ''list indices must be integers or slices, not str'')) =
     [24037, 20855, 35843, 29992, 22833, 36133] @ asc '': '' @
     asc ''list indices must be integers or slices, not str'' \<and>
   mcp_server bare_client = None \<and>
   call_mcp_tool ascii_python bare_client (asc ''read_file'')
       (Dict [(asc ''path'', PyStr (asc ''a.md''))]) =
     asc ''MCP'' @ [26381, 21153, 22120, 26410, 21021, 22987, 21270]"
proof -
  have h: "mcp_server example_client = Some example_server"
    by (simp add: example_client_def)
  have u: "asc ''foo'' \<notin> set (map tool_name mcp_tool_list)"
    unfolding tool_names by (simp add: asc_def)
  have m: "map_of [(asc ''path'', PyStr (asc ''a.md''))] (asc ''path'') =
           Some (PyStr (asc ''a.md''))"
    by simp
  have r: "read_file example_server (PyStr (asc ''a.md'')) = Inl (asc ''No such file'')"
    by (simp add: example_server_def raise_missing_def)
  have b: "mcp_server bare_client = None"
    by (simp add: bare_client_def)
  from dispatcher_results[where self = example_client and srv = example_server
      and name = "asc ''foo''" and py = ascii_python and arguments = "Dict []"] h u
  have 1: "call_mcp_tool ascii_python example_client (asc ''foo'') (Dict []) =
             [26410, 30693, 30340, 24037, 20855] @ asc '': '' @ asc ''foo''"
    by blast
  from dispatcher_results[where self = example_client and srv = example_server
      and py = ascii_python and arguments = "Dict [(asc ''path'', PyStr (asc ''a.md''))]"
      and d = "[(asc ''path'', PyStr (asc ''a.md''))]"
      and e = "asc ''No such file''" and p = "PyStr (asc ''a.md'')"] h m r
  have 2: "call_mcp_tool ascii_python example_client (asc ''read_file'')
       (Dict [(asc ''path'', PyStr (asc ''a.md''))]) =
     [24037, 20855, 35843, 29992, 22833, 36133] @ asc '': '' @ asc ''No such file''"
    by blast
  from dispatcher_results[where self = example_client and srv = example_server
      and py = ascii_python
      and arguments = "NotDict (asc ''list indices must be integers or slices, not str'')"
      and e = "asc ''list indices must be integers or slices, not str''"] h
  have 3: "call_mcp_tool ascii_python example_client (asc ''read_file'')
       (NotDict (asc ''list indices must be integers or slices, not str'')) =
     [24037, 20855, 35843, 29992, 22833, 36133] @ asc '': '' @
     asc ''list indices must be integers or slices, not str''"
    by blast
  from dispatcher_results[where self = bare_client and py = ascii_python
      and name = "asc ''read_file''"
      and arguments = "Dict [(asc ''path'', PyStr (asc ''a.md''))]"] b
  have 4: "call_mcp_tool ascii_python bare_client (asc ''read_file'')
       (Dict [(asc ''path'', PyStr (asc ''a.md''))]) =
     asc ''MCP'' @ [26381, 21153, 22120, 26410, 21021, 22987, 21270]"
    by blast
  from h u m r b 1 2 3 4 show ?thesis by blast
qed

text \<open>Without a server the dispatcher answers every call, also one for a name that is no
  tool, with the text "MCP server not initialised", which does not name the tool.\<close>

theorem dispatcher_without_server:
  "call_mcp_tool ascii_python bare_client (asc ''foo'') (Dict []) =
     asc ''MCP'' @ [26381, 21153, 22120, 26410, 21021, 22987, 21270] \<and>
   call_mcp_tool ascii_python bare_client (asc ''foo'') (Dict []) \<noteq>
     [26410, 30693, 30340, 24037, 20855] @ asc '': '' @ asc ''foo''"
  by (simp add: call_mcp_tool_def bare_client_def asc_def)

section \<open>Properties of the call extractor\<close>

subsection \<open>One marker occurrence\<close>





lemma findall_no_marker: "\<not> sublist marker t \<Longrightarrow> findall py t = []"
proof (induction t)
  case Nil
  then show ?case by simp
next
  case (Cons c cs)
  have "\<not> prefix marker (c # cs)" using Cons.prems by (auto dest: prefix_imp_sublist)
  then have m: "match_tool_call py (c # cs) = None" by (simp add: match_tool_call_def)
  have "\<not> sublist marker cs" using Cons.prems by (auto simp: sublist_Cons_right)
  then show ?case using Cons.IH m by simp
qed












subsection \<open>The parsing of the arguments\<close>

lemma split_on_nonempty: "split_on sep s \<noteq> []"
  by (induction s) (auto split: list.splits)

lemma split_on_nosep: "sep \<notin> set p \<Longrightarrow> split_on sep p = [p]"
  by (induction p) auto

lemma split_on_append: "sep \<notin> set p \<Longrightarrow> split_on sep (p @ sep # rest) = p # split_on sep rest"
  by (induction p) (auto split: list.splits)

lemma split_on_join:
  "segs \<noteq> [] \<Longrightarrow> \<forall>s \<in> set segs. sep \<notin> set s \<Longrightarrow> split_on sep (join [sep] segs) = segs"
proof (induction "[sep]" segs rule: join.induct)
  case 1
  then show ?case by simp
next
  case (2 p)
  then show ?case by (simp add: split_on_nosep)
next
  case (3 p q ps)
  then show ?case by (simp add: split_on_append)
qed

lemma split_on_chars: "p \<in> set (split_on sep s) \<Longrightarrow> x \<in> set p \<Longrightarrow> x \<in> set s"
proof (induction s arbitrary: p)
  case Nil
  then show ?case by simp
next
  case (Cons c cs)
  show ?case
  proof (cases "c = sep")
    case True
    then show ?thesis using Cons by auto
  next
    case False
    obtain q qs where q: "split_on sep cs = q # qs"
      using split_on_nonempty[of sep cs] by (cases "split_on sep cs") auto
    then have "p = c # q \<or> p \<in> set qs" using Cons.prems(1) False by auto
    then show ?thesis
    proof
      assume p: "p = c # q"
      have "q \<in> set (split_on sep cs)" using q by simp
      then have "x \<in> set q \<Longrightarrow> x \<in> set cs" by (rule Cons.IH)
      then show ?thesis using p Cons.prems(2) by auto
    next
      assume "p \<in> set qs"
      then have "p \<in> set (split_on sep cs)" using q by simp
      then have "x \<in> set cs" using Cons.prems(2) by (rule Cons.IH)
      then show ?thesis by simp
    qed
  qed
qed

lemma foldl_drop_segments:
  "foldl parse_segment d segs = foldl parse_segment d (filter (\<lambda>s. 61 \<in> set s) segs)"
  by (induction segs arbitrary: d) (auto simp: parse_segment_def)

lemma strip_chars_empty: "strip_chars P s = [] \<Longrightarrow> \<forall>c \<in> set s. P c"
proof -
  assume "strip_chars P s = []"
  then have "dropWhile P (rev (dropWhile P s)) = []" by (simp add: strip_chars_def)
  then have "\<forall>c \<in> set (dropWhile P s). P c" by (simp add: dropWhile_eq_Nil_conv)
  then have "dropWhile P s = []"
    by (metis hd_dropWhile list.set_sel(1))
  then show ?thesis by (simp add: dropWhile_eq_Nil_conv)
qed

lemma parse_arguments_fold:
  "parse_arguments s = foldl parse_segment [] (filter (\<lambda>p. 61 \<in> set p) (split_on 44 s))"
proof (cases "str_strip s = []")
  case True
  then have "\<forall>c \<in> set s. is_space c" unfolding str_strip_def by (rule strip_chars_empty)
  moreover have "\<not> is_space 61" by (simp add: is_space_def)
  ultimately have "61 \<notin> set s" by blast
  then have "filter (\<lambda>p. 61 \<in> set p) (split_on 44 s) = []"
    by (auto simp: filter_empty_conv dest: split_on_chars)
  then show ?thesis using True by (simp add: parse_arguments_def)
next
  case False
  then show ?thesis using foldl_drop_segments by (simp add: parse_arguments_def)
qed

lemma parse_segment_equals:
  "61 \<notin> set k \<Longrightarrow>
   parse_segment d (k @ [61] @ v) =
     AList.update (strip_chars is_quote (str_strip k)) (strip_chars is_quote (str_strip v)) d"
proof -
  assume k: "61 \<notin> set k"
  have "takeWhile (\<lambda>c. c \<noteq> 61) (k @ 61 # v) = k"
    using k by (induction k) auto
  moreover have "dropWhile (\<lambda>c. c \<noteq> 61) (k @ 61 # v) = 61 # v"
    using k by (induction k) auto
  ultimately show ?thesis by (simp add: parse_segment_def)
qed

lemma dropWhile_all: "\<forall>x \<in> set xs. P x \<Longrightarrow> dropWhile P (xs @ ys) = dropWhile P ys"
  by (induction xs) auto

lemma strip_chars_core:
  assumes l: "list_all P l" and r: "list_all P r"
    and core: "core = [] \<or> \<not> P (hd core) \<and> \<not> P (last core)"
  shows "strip_chars P (l @ core @ r) = core"
proof (cases "core = []")
  case True
  have "\<forall>x \<in> set (l @ core @ r). P x" using l r True by (auto simp: list_all_iff)
  then have d: "dropWhile P (l @ core @ r) = []" by (simp only: dropWhile_eq_Nil_conv)
  show ?thesis unfolding strip_chars_def d using True by simp
next
  case False
  with core have h: "\<not> P (hd core)" and t: "\<not> P (last core)" by auto
  have "dropWhile P (l @ core @ r) = dropWhile P (core @ r)"
    using l by (intro dropWhile_all) (simp add: list_all_iff)
  also have "\<dots> = core @ r" using False h by (cases core) auto
  finally have 1: "dropWhile P (l @ core @ r) = core @ r" .
  have "dropWhile P (rev r @ rev core) = dropWhile P (rev core)"
    using r by (intro dropWhile_all) (simp add: list_all_iff)
  also have "\<dots> = rev core" using False t by (cases core rule: rev_cases) auto
  finally show ?thesis by (simp add: strip_chars_def 1)
qed

text \<open>
  C7 (as amended).  The text between the parentheses is split on every comma; a segment
  without \<open>=\<close> is dropped and the other segments are parsed, in order, a later key
  replacing an earlier one; a segment is split on its first \<open>=\<close>; the key and the
  value lose the white space around them and then every leading and trailing quote
  character, single or double, in any number and any mixture.
\<close>

theorem argument_parsing_rule:
  "(segs \<noteq> [] \<and> (\<forall>s \<in> set segs. 44 \<notin> set s) \<longrightarrow>
      parse_arguments (join [44] segs) =
        foldl parse_segment [] (filter (\<lambda>s. 61 \<in> set s) segs)) \<and>
   (61 \<notin> set k \<longrightarrow>
      parse_segment d (k @ [61] @ v) =
        AList.update (strip_chars is_quote (str_strip k)) (strip_chars is_quote (str_strip v)) d) \<and>
   (list_all is_quote l \<and> list_all is_quote r \<and>
      (core = [] \<or> \<not> is_quote (hd core) \<and> \<not> is_quote (last core)) \<longrightarrow>
      strip_chars is_quote (l @ core @ r) = core) \<and>
   (list_all is_space l \<and> list_all is_space r \<and>
      (core = [] \<or> \<not> is_space (hd core) \<and> \<not> is_space (last core)) \<longrightarrow>
      str_strip (l @ core @ r) = core)"
proof -
  have a: "segs \<noteq> [] \<Longrightarrow> \<forall>s \<in> set segs. 44 \<notin> set s \<Longrightarrow>
      parse_arguments (join [44] segs) =
        foldl parse_segment [] (filter (\<lambda>s. 61 \<in> set s) segs)"
    by (simp add: parse_arguments_fold split_on_join)
  have b: "61 \<notin> set k \<Longrightarrow>
      parse_segment d (k @ [61] @ v) =
        AList.update (strip_chars is_quote (str_strip k)) (strip_chars is_quote (str_strip v)) d"
    by (rule parse_segment_equals)
  have c: "list_all is_quote l \<Longrightarrow> list_all is_quote r \<Longrightarrow>
      core = [] \<or> \<not> is_quote (hd core) \<and> \<not> is_quote (last core) \<Longrightarrow>
      strip_chars is_quote (l @ core @ r) = core"
    by (rule strip_chars_core)
  have d: "list_all is_space l \<Longrightarrow> list_all is_space r \<Longrightarrow>
      core = [] \<or> \<not> is_space (hd core) \<and> \<not> is_space (last core) \<Longrightarrow>
      str_strip (l @ core @ r) = core"
    unfolding str_strip_def by (rule strip_chars_core)
  from a b c d show ?thesis by blast
qed

lemma example_segments_eval:
  "example_segments =
     [[97, 61, 34, 34, 120, 34, 34], [106, 117, 110, 107], [32, 98, 61, 39, 121, 39]]"
  by (simp add: example_segments_def doubly_quoted_def asc_def)

theorem argument_parsing_rule_witness:
  "example_segments \<noteq> [] \<and> list_all (\<lambda>s. 44 \<notin> set s) example_segments \<and>
   parse_arguments (join [44] example_segments) = [(asc ''a'', asc ''x''), (asc ''b'', asc ''y'')] \<and>
   61 \<notin> set (asc ''a'') \<and>
   parse_segment [] (asc ''a'' @ [61] @ [34, 34, 120, 34, 34]) = [(asc ''a'', asc ''x'')] \<and>
   list_all is_quote [34, 39] \<and> list_all is_quote [39] \<and>
   strip_chars is_quote ([34, 39] @ asc ''x'' @ [39]) = asc ''x'' \<and>
   list_all is_space [32, 9] \<and> list_all is_space [10] \<and>
   str_strip ([32, 9] @ asc ''x'' @ [10]) = asc ''x''"
proof -
  have h1: "example_segments \<noteq> []" by (simp add: example_segments_eval)
  have h2: "\<forall>s \<in> set example_segments. 44 \<notin> set s" by (simp add: example_segments_eval)
  have h3: "61 \<notin> set (asc ''a'')" by (simp add: asc_def)
  have h4: "list_all is_quote [34, 39]" "list_all is_quote [39]" by (simp_all add: is_quote_def)
  have h5: "list_all is_space [32, 9]" "list_all is_space [10]" by (simp_all add: is_space_def)
  have h6: "asc ''x'' = [] \<or> \<not> is_quote (hd (asc ''x'')) \<and> \<not> is_quote (last (asc ''x''))"
    by (simp add: asc_def is_quote_def)
  have h7: "asc ''x'' = [] \<or> \<not> is_space (hd (asc ''x'')) \<and> \<not> is_space (last (asc ''x''))"
    by (simp add: asc_def is_space_def)
  have e1: "foldl parse_segment [] (filter (\<lambda>s. 61 \<in> set s) example_segments) =
            [(asc ''a'', asc ''x''), (asc ''b'', asc ''y'')]"
    by (simp add: example_segments_eval parse_segment_def str_strip_def strip_chars_def
        is_space_def is_quote_def asc_def)
  have e2: "AList.update (strip_chars is_quote (str_strip (asc ''a'')))
              (strip_chars is_quote (str_strip [34, 34, 120, 34, 34])) [] =
            [(asc ''a'', asc ''x'')]"
    by (simp add: str_strip_def strip_chars_def is_space_def is_quote_def asc_def)
  note t = argument_parsing_rule[where segs = example_segments and k = "asc ''a''" and d = "[]"
      and v = "[34, 34, 120, 34, 34]"]
  have 1: "parse_arguments (join [44] example_segments) =
           [(asc ''a'', asc ''x''), (asc ''b'', asc ''y'')]"
    using t[where l = "[]" and r = "[]" and core = "[]"] h1 h2 e1 by simp
  have 2: "parse_segment [] (asc ''a'' @ [61] @ [34, 34, 120, 34, 34]) = [(asc ''a'', asc ''x'')]"
    using t[where l = "[]" and r = "[]" and core = "[]"] h3 e2 by simp
  have 3: "strip_chars is_quote ([34, 39] @ asc ''x'' @ [39]) = asc ''x''"
    using t[where l = "[34, 39]" and r = "[39]" and core = "asc ''x''"] h4 h6 by blast
  have 4: "str_strip ([32, 9] @ asc ''x'' @ [10]) = asc ''x''"
    using t[where l = "[32, 9]" and r = "[10]" and core = "asc ''x''"] h5 h7 by blast
  have l: "list_all (\<lambda>s. 44 \<notin> set s) example_segments" using h2 by (simp add: list_all_iff)
  from h1 l 1 h3 2 h4 3 h5 4 show ?thesis by blast
qed

text \<open>The argument text \<open>a=""x""\<close>: the source strips both layers of quotes, the rule of
  the specification strips one.\<close>

theorem two_quote_layers:
  "parse_arguments doubly_quoted = [(asc ''a'', asc ''x'')] \<and>
   spec_parse_arguments doubly_quoted = [(asc ''a'', [34] @ asc ''x'' @ [34])] \<and>
   parse_arguments doubly_quoted \<noteq> spec_parse_arguments doubly_quoted"
proof -
  have e: "doubly_quoted = [97, 61, 34, 34, 120, 34, 34]"
    by (simp add: doubly_quoted_def asc_def)
  have 1: "parse_arguments doubly_quoted = [(asc ''a'', asc ''x'')]"
    unfolding e
    by (simp add: parse_arguments_def parse_segment_def str_strip_def strip_chars_def
        is_space_def is_quote_def asc_def)
  have 2: "spec_parse_arguments doubly_quoted = [(asc ''a'', [34] @ asc ''x'' @ [34])]"
    unfolding e
    by (simp add: spec_parse_arguments_def spec_parse_segment_def spec_strip_one_layer_def
        str_strip_def strip_chars_def is_space_def is_quote_def asc_def)
  have 3: "parse_arguments doubly_quoted \<noteq> spec_parse_arguments doubly_quoted"
    unfolding 1 2 by (simp add: asc_def)
  from 1 2 3 show ?thesis by blast
qed

section \<open>Properties of the completion gateway\<close>

subsection \<open>A first response without calls\<close>

lemma process_no_calls:
  "detected_calls py text = [] \<Longrightarrow> process_text_tool_calls py self text = text"
  by (simp add: process_text_tool_calls_def)

text \<open>
  C6 (as amended).  Outside the mock mode, when the first response of the service has no
  structured tool calls, its content is a text, and the extractor detects no call in the
  stripped content, \<open>chat\<close> sends this one request only and returns the content with
  the white space at its two ends removed (\<open>message.content.strip()\<close>);
  \<open>_process_text_tool_calls\<close> itself returns a text without calls unchanged.
\<close>

theorem no_calls_single_round_trip:
  assumes live: "\<not> mock_mode self" and prov: "provider self = asc ''openai''"
    and first: "create (first_request self prompt system_prompt) = Inr message"
    and none: "reply_tool_calls message = []"
    and cont: "reply_content message = Some c"
    and nocall: "detected_calls py (str_strip c) = []"
  shows "chat py create self prompt system_prompt =
           (Some (str_strip c), [first_request self prompt system_prompt]) \<and>
         process_text_tool_calls py self (str_strip c) = str_strip c"
proof -
  have p: "process_text_tool_calls py self (str_strip c) = str_strip c"
    by (rule process_no_calls[OF nocall])
  have s: "stripped_content message = Inr (str_strip c)"
    by (simp add: stripped_content_def cont)
  show ?thesis
  proof (cases "available_tools self = []")
    case True
    then have "plain_chat py create self (initial_messages self prompt system_prompt) =
                 (Inr (str_strip c), [first_request self prompt system_prompt])"
      using first by (simp add: plain_chat_def first_request_def Let_def s p)
    then show ?thesis using live prov True p by (simp add: chat_def Let_def)
  next
    case False
    then have "function_calling py create self (initial_messages self prompt system_prompt) =
                 (Inr (str_strip c), [first_request self prompt system_prompt],
                  initial_messages self prompt system_prompt)"
      using first none by (simp add: function_calling_def first_request_def Let_def s p)
    then show ?thesis using live prov False p by (simp add: chat_def Let_def)
  qed
qed

lemma padded_strip: "str_strip (asc '' ok '') = asc ''ok''"
  by (simp add: str_strip_def strip_chars_def is_space_def asc_def)

lemma ok_no_calls: "detected_calls py (asc ''ok'') = []"
proof -
  have "\<not> sublist marker (asc ''ok'')"
    by (simp add: marker_def asc_def sublist_code)
  then show ?thesis by (simp add: detected_calls_def findall_no_marker)
qed

theorem no_calls_single_round_trip_witness:
  "\<not> mock_mode example_client \<and> provider example_client = asc ''openai'' \<and>
   padded_reply (first_request example_client (asc ''hi'') None) =
     Inr \<lparr>reply_content = Some (asc '' ok ''), reply_tool_calls = []\<rparr> \<and>
   detected_calls ascii_python (str_strip (asc '' ok '')) = [] \<and>
   chat ascii_python padded_reply example_client (asc ''hi'') None =
     (Some (asc ''ok''), [first_request example_client (asc ''hi'') None])"
proof -
  have h1: "\<not> mock_mode example_client" by (simp add: example_client_def)
  have h2: "provider example_client = asc ''openai''" by (simp add: example_client_def)
  have h3: "padded_reply (first_request example_client (asc ''hi'') None) =
     Inr \<lparr>reply_content = Some (asc '' ok ''), reply_tool_calls = []\<rparr>"
    by (simp add: padded_reply_def)
  have h4: "reply_tool_calls \<lparr>reply_content = Some (asc '' ok ''), reply_tool_calls = []\<rparr> = []"
    by simp
  have h5: "reply_content \<lparr>reply_content = Some (asc '' ok ''), reply_tool_calls = []\<rparr> =
            Some (asc '' ok '')"
    by simp
  have h6: "detected_calls ascii_python (str_strip (asc '' ok '')) = []"
    by (simp only: padded_strip ok_no_calls)
  note t = no_calls_single_round_trip[where self = example_client and create = padded_reply
      and prompt = "asc ''hi''" and system_prompt = None and c = "asc '' ok ''"
      and py = ascii_python, OF h1 h2 h3 h4 h5 h6]
  from t h1 h2 h3 h6 show ?thesis by (simp only: padded_strip simp_thms)
qed

text \<open>The first response \<open>" ok "\<close> has no calls; the reply of \<open>chat\<close> is \<open>"ok"\<close>, which is
  not the response character for character.\<close>

theorem stripped_first_response:
  "padded_reply (first_request example_client (asc ''hi'') None) =
     Inr \<lparr>reply_content = Some (asc '' ok ''), reply_tool_calls = []\<rparr> \<and>
   fst (chat ascii_python padded_reply example_client (asc ''hi'') None) = Some (asc ''ok'') \<and>
   asc ''ok'' \<noteq> asc '' ok ''"
proof -
  have 1: "padded_reply (first_request example_client (asc ''hi'') None) =
     Inr \<lparr>reply_content = Some (asc '' ok ''), reply_tool_calls = []\<rparr>"
    by (simp add: padded_reply_def)
  have t: "available_tools example_client \<noteq> []"
    by (simp add: example_client_def mcp_tool_list_def)
  have "function_calling ascii_python padded_reply example_client
          (initial_messages example_client (asc ''hi'') None) =
        (Inr (asc ''ok''), [first_request example_client (asc ''hi'') None],
         initial_messages example_client (asc ''hi'') None)"
    using t
    by (simp add: function_calling_def first_request_def padded_reply_def stripped_content_def
        padded_strip process_no_calls[OF ok_no_calls] Let_def)
  then have 2: "fst (chat ascii_python padded_reply example_client (asc ''hi'') None) =
                Some (asc ''ok'')"
    using t by (simp add: chat_def Let_def example_client_def)
  have 3: "asc ''ok'' \<noteq> asc '' ok ''" by (simp add: asc_def)
  from 1 2 3 show ?thesis by blast
qed

subsection \<open>The mock mode\<close>














end
